theory Spec2Isabelle
  imports
    Main
    "HOL-Library.Char_ord"
    "HOL-Library.List_Lexorder"
    "HOL-Library.Multiset"
    "HOL-Library.AList"
    "HOL-Library.Sublist"
begin

section \<open>Data model\<close>

text \<open>
  The script \<^verbatim>\<open>get_wikidata_for_osmwiki.py\<close> queries Wikidata, reshapes the answers with
  pandas and renders a Lua table. Strings are \<^typ>\<open>string\<close>; their order is the
  lexicographic order on character codes, which is how Python compares \<^verbatim>\<open>str\<close>.
  A Python \<^verbatim>\<open>dict\<close> is an association list (insertion ordered, looked up with
  \<^const>\<open>map_of\<close>). Every exception the script can raise is a value of \<open>error\<close>.
\<close>

datatype error = KeyError string | ValueError string | AttributeError string | HTTPError string

definition and_then :: "error + 'a \<Rightarrow> ('a \<Rightarrow> error + 'b) \<Rightarrow> error + 'b" where
  "and_then m f = (case m of Inl e \<Rightarrow> Inl e | Inr x \<Rightarrow> f x)"

text \<open>\<^verbatim>\<open>d.get(k, default)\<close>\<close>

definition dict_get :: "('k \<times> 'v) list \<Rightarrow> 'k \<Rightarrow> 'v \<Rightarrow> 'v" where
  "dict_get d k dflt = (case map_of d k of Some v \<Rightarrow> v | None \<Rightarrow> dflt)"

text \<open>
  One result binding of the query service as the JSON gives it: each variable is bound to
  a wrapper object such as \<^verbatim>\<open>{"type": "literal", "value": "FR"}\<close>.
\<close>

type_synonym wrapper = "(string \<times> string) list"
type_synonym item = "(string \<times> wrapper) list"
type_synonym binding = "(string \<times> string) list"

text \<open>
  \<^verbatim>\<open>restructure_json\<close>: the argument is the list \<^verbatim>\<open>wikidata_result["results"]["bindings"]\<close>.
\<close>

definition restructure_json :: "item list \<Rightarrow> binding list" where
  "restructure_json bindings =
     map (\<lambda>item. map (\<lambda>(key, val). (key, dict_get val ''value'' [])) item) bindings"

subsection \<open>Data frames\<close>

text \<open>
  A data frame is its column labels and its rows; a row holds one string per column.
  \<open>cell r k\<close> reads column \<open>k\<close> of row \<open>r\<close>.
\<close>

type_synonym row = "(string \<times> string) list"

record frame =
  columns :: "string list"
  rws :: "row list"

definition cell :: "row \<Rightarrow> string \<Rightarrow> string" where
  "cell r k = dict_get r k []"

text \<open>Values in order of first appearance (\<^verbatim>\<open>Series.unique()\<close>, and the column order of a new frame).\<close>

definition unique :: "'a list \<Rightarrow> 'a list" where
  "unique xs = rev (remdups (rev xs))"

text \<open>
  \<^verbatim>\<open>pd.DataFrame(rows).fillna("")\<close>: the columns are the keys of the bindings in order of
  first appearance, and a variable that a binding does not have becomes the empty string.
\<close>

definition DataFrame :: "binding list \<Rightarrow> frame" where
  "DataFrame bs =
     (let cs = unique (concat (map (map fst) bs))
      in \<lparr>columns = cs, rws = map (\<lambda>b. map (\<lambda>c. (c, dict_get b c [])) cs) bs\<rparr>)"

text \<open>\<^verbatim>\<open>df[df["codeiso2"] != ""]\<close>; reading a column the frame does not have raises KeyError.\<close>

definition drop_empty_code :: "frame \<Rightarrow> error + frame" where
  "drop_empty_code df =
     (if ''codeiso2'' \<in> set (columns df)
      then Inr (df\<lparr>rws := filter (\<lambda>r. cell r ''codeiso2'' \<noteq> []) (rws df)\<rparr>)
      else Inl (KeyError ''codeiso2''))"

text \<open>
  \<^verbatim>\<open>df.groupby([k]).first().reset_index()\<close>: one row per value of column \<open>k\<close>, the groups
  in ascending order of that value, each group represented by its first row in frame
  order; the key becomes the first column. (\<^verbatim>\<open>first()\<close> skips nulls, and after
  \<^verbatim>\<open>fillna("")\<close> a frame holds none.)
\<close>

definition reset_index :: "string \<Rightarrow> row \<Rightarrow> row" where
  "reset_index k r = (k, cell r k) # filter (\<lambda>p. fst p \<noteq> k) r"

definition groupby_first :: "string \<Rightarrow> frame \<Rightarrow> error + frame" where
  "groupby_first k df =
     (if k \<in> set (columns df)
      then Inr \<lparr>columns = k # removeAll k (columns df),
                rws = List.map_filter
                        (\<lambda>c. map_option (reset_index k) (find (\<lambda>r. cell r k = c) (rws df)))
                        (sort (remdups (map (\<lambda>r. cell r k) (rws df))))\<rparr>
      else Inl (KeyError k))"

subsection \<open>Sorting\<close>

text \<open>
  \<^verbatim>\<open>DataFrame.sort_values\<close> is called without \<^verbatim>\<open>kind=\<close>, so pandas sorts with its default
  algorithm (quicksort), which promises a sorted permutation of the rows and nothing about
  the order of rows with equal keys. The sort is therefore a parameter \<open>srt\<close> of the
  model: it takes the comparison and the rows. \<open>sort_values_spec\<close> is what pandas
  promises of it. For \<^verbatim>\<open>ascending=False\<close> pandas reverses the rows, sorts, and reverses
  the result.
\<close>

type_synonym sorter = "(row \<Rightarrow> row \<Rightarrow> bool) \<Rightarrow> row list \<Rightarrow> row list"

definition total_preorder :: "('a \<Rightarrow> 'a \<Rightarrow> bool) \<Rightarrow> bool" where
  "total_preorder le \<longleftrightarrow> (\<forall>a b. le a b \<or> le b a) \<and> (\<forall>a b c. le a b \<and> le b c \<longrightarrow> le a c)"

definition sort_values_spec :: "sorter \<Rightarrow> bool" where
  "sort_values_spec srt \<longleftrightarrow>
     (\<forall>le xs. total_preorder le \<longrightarrow> mset (srt le xs) = mset xs \<and> sorted_wrt le (srt le xs))"

definition sort_rows :: "sorter \<Rightarrow> (row \<Rightarrow> 'k::linorder) \<Rightarrow> bool \<Rightarrow> row list \<Rightarrow> row list" where
  "sort_rows srt key ascending xs =
     (if ascending then srt (\<lambda>a b. key a \<le> key b) xs
      else rev (srt (\<lambda>a b. key a \<le> key b) (rev xs)))"

definition sort_values :: "sorter \<Rightarrow> string \<Rightarrow> bool \<Rightarrow> frame \<Rightarrow> error + frame" where
  "sort_values srt k ascending df =
     (if k \<in> set (columns df)
      then Inr (df\<lparr>rws := sort_rows srt (\<lambda>r. cell r k) ascending (rws df)\<rparr>)
      else Inl (KeyError k))"

text \<open>
  Two sorts that keep the promise: insertion sort, which leaves rows with equal keys in
  their original order, and insertion sort of the reversed rows, which does not.
\<close>

fun insert_row :: "(row \<Rightarrow> row \<Rightarrow> bool) \<Rightarrow> row \<Rightarrow> row list \<Rightarrow> row list" where
  "insert_row le x [] = [x]"
| "insert_row le x (y # ys) = (if le x y then x # y # ys else y # insert_row le x ys)"

fun stable_sort :: sorter where
  "stable_sort le [] = []"
| "stable_sort le (x # xs) = insert_row le x (stable_sort le xs)"

definition unstable_sort :: sorter where
  "unstable_sort le xs = stable_sort le (rev xs)"

subsection \<open>Dictionaries built from a frame\<close>

text \<open>
  \<^verbatim>\<open>{r[kc]: r[vc] for r in df.to_dict(orient='records')}\<close>: a later record overwrites the
  value of an earlier one with the same key. The comprehension reads the columns only when
  there is a record.
\<close>

definition records_dict :: "string \<Rightarrow> string \<Rightarrow> frame \<Rightarrow> error + (string \<times> string) list" where
  "records_dict kc vc df =
     (if rws df = [] then Inr []
      else if kc \<notin> set (columns df) then Inl (KeyError kc)
      else if vc \<notin> set (columns df) then Inl (KeyError vc)
      else Inr (foldl (\<lambda>d r. AList.update (cell r kc) (cell r vc) d) [] (rws df)))"

section \<open>Dated properties\<close>

definition restructure_dated_property ::
  "sorter \<Rightarrow> binding list \<Rightarrow> string \<Rightarrow> error + (string \<times> string) list" where
  "restructure_dated_property srt rows nameattribute =
     and_then (drop_empty_code (DataFrame rows)) (\<lambda>df.
     and_then (sort_values srt (''date_'' @ nameattribute) False df) (\<lambda>df.
     and_then (groupby_first ''codeiso2'' df) (\<lambda>df.
     records_dict ''codeiso2'' nameattribute df)))"

section \<open>Property descriptors\<close>

text \<open>
  The tuples of \<^verbatim>\<open>wikidata_properties\<close>: (property name, wikidata property id, has_date,
  datatype, get_label).
\<close>

datatype ptype = PStr | PList | PFloat | PInt

record property =
  pname :: string
  pid :: nat
  has_date :: bool
  dtype :: ptype
  get_label :: bool

definition wikidata_properties :: "property list" where
  "wikidata_properties =
     [\<lparr>pname = ''codeiso2'', pid = 297, has_date = False, dtype = PStr, get_label = False\<rparr>,
      \<lparr>pname = ''continent'', pid = 30, has_date = False, dtype = PList, get_label = True\<rparr>,
      \<lparr>pname = ''area_km2'', pid = 2046, has_date = False, dtype = PFloat, get_label = False\<rparr>,
      \<lparr>pname = ''population'', pid = 1082, has_date = True, dtype = PInt, get_label = False\<rparr>,
      \<lparr>pname = ''gdp_bd'', pid = 2131, has_date = True, dtype = PFloat, get_label = False\<rparr>,
      \<lparr>pname = ''languages'', pid = 37, has_date = False, dtype = PList, get_label = True\<rparr>,
      \<lparr>pname = ''flag_image'', pid = 41, has_date = False, dtype = PStr, get_label = False\<rparr>,
      \<lparr>pname = ''locator_map'', pid = 242, has_date = False, dtype = PList, get_label = False\<rparr>,
      \<lparr>pname = ''osm_rel_id'', pid = 402, has_date = False, dtype = PStr, get_label = False\<rparr>]"

definition basic_properties :: "property list" where
  "basic_properties = filter (\<lambda>f. \<not> has_date f \<and> dtype f \<noteq> PList) wikidata_properties"

definition list_properties :: "property list" where
  "list_properties = filter (\<lambda>f. dtype f = PList) wikidata_properties"

definition date_properties :: "property list" where
  "date_properties = filter has_date wikidata_properties"

section \<open>The base table and the list properties\<close>

text \<open>Lines 137 to 140: the base table.\<close>

definition base_pass :: "item list \<Rightarrow> error + frame" where
  "base_pass result =
     and_then (drop_empty_code (DataFrame (restructure_json result)))
       (groupby_first ''codeiso2'')"

text \<open>
  \<^verbatim>\<open>df[k] = ...\<close> with one value per row: an existing column is overwritten in place, a new
  one is appended.
\<close>

definition assign :: "string \<Rightarrow> (row \<Rightarrow> string) \<Rightarrow> frame \<Rightarrow> frame" where
  "assign k f df =
     \<lparr>columns = (if k \<in> set (columns df) then columns df else columns df @ [k]),
      rws = map (\<lambda>r. AList.update k (f r) r) (rws df)\<rparr>"

text \<open>Lines 148 to 153: the frame of one list property, from the result of its query.\<close>

definition list_frame :: "property \<Rightarrow> item list \<Rightarrow> error + frame" where
  "list_frame p result =
     and_then (drop_empty_code (DataFrame (restructure_json result))) (\<lambda>df.
       if get_label p
       then (if pname p @ ''Label'' \<in> set (columns df)
             then Inr (assign (pname p) (\<lambda>r. cell r (pname p @ ''Label'')) df)
             else Inl (KeyError (pname p @ ''Label'')))
       else Inr df)"

text \<open>Lines 157 to 159: the continent.\<close>

definition clean_continent :: "frame \<Rightarrow> error + frame" where
  "clean_continent df =
     (if ''continentLabel'' \<in> set (columns df)
      then groupby_first ''codeiso2''
             (assign ''continent''
                (\<lambda>r. if cell r ''continentLabel'' \<in> set [''Insular Oceania'', ''Australian continent'']
                     then ''Oceania'' else cell r ''continentLabel'') df)
      else Inl (KeyError ''continentLabel''))"

text \<open>\<^verbatim>\<open>sep.join(xs)\<close>\<close>

fun join :: "string \<Rightarrow> string list \<Rightarrow> string" where
  "join sep [] = []"
| "join sep [x] = x"
| "join sep (x # y # ys) = x @ sep @ join sep (y # ys)"

text \<open>
  Line 162: \<^verbatim>\<open>groupby(["codeiso2"])['languages'].apply(', '.join).reset_index()\<close>. The groups
  are in ascending order of the code; each keeps its rows in frame order.
\<close>

definition concatenate_languages :: "frame \<Rightarrow> error + frame" where
  "concatenate_languages df =
     (if ''codeiso2'' \<notin> set (columns df) then Inl (KeyError ''codeiso2'')
      else if ''languages'' \<notin> set (columns df) then Inl (KeyError ''languages'')
      else Inr \<lparr>columns = [''codeiso2'', ''languages''],
                rws = map (\<lambda>c. [(''codeiso2'', c),
                                (''languages'',
                                 join '', '' (map (\<lambda>r. cell r ''languages'')
                                               (filter (\<lambda>r. cell r ''codeiso2'' = c) (rws df))))])
                          (sort (remdups (map (\<lambda>r. cell r ''codeiso2'') (rws df))))\<rparr>)"

text \<open>
  \<^verbatim>\<open>s.replace(old, new)\<close> of Python, which \<^verbatim>\<open>Series.str.replace\<close> applies to every value
  (pandas 2 reads the pattern literally): every occurrence of \<open>old\<close>, left to right.
\<close>

function str_replace :: "string \<Rightarrow> string \<Rightarrow> string \<Rightarrow> string" where
  "str_replace old new s =
     (if old = [] then new @ concat (map (\<lambda>c. c # new) s)
      else if s = [] then []
      else if prefix old s then new @ str_replace old new (drop (length old) s)
      else hd s # str_replace old new (tl s))"
  by pat_completeness auto
termination
  by (relation "measure (\<lambda>(old, new, s). length s)") auto

declare str_replace.simps [simp del]

text \<open>
  Lines 165 to 175: the locator map. \<^verbatim>\<open>urllib.parse.unquote\<close> is a parameter. The column
  \<^verbatim>\<open>locator_map_score\<close> holds \<open>locator_map_score\<close> of the cleaned value of its row and is
  read by the sort only, so the model sorts by that function of the row.
\<close>

definition locator_map_score_dict :: "(string \<times> nat) list" where
  "locator_map_score_dict =
     [(''orthographic'', 2), (''orthographic projection'', 1), (''on the globe'', 3)]"

definition locator_map_score :: "string \<Rightarrow> nat" where
  "locator_map_score x = dict_get locator_map_score_dict x 99"

definition clean_image :: "(string \<Rightarrow> string) \<Rightarrow> string \<Rightarrow> string" where
  "clean_image unquote v =
     unquote (str_replace ''http://commons.wikimedia.org/wiki/Special:FilePath/'' [] v)"

definition manage_locator_map :: "sorter \<Rightarrow> (string \<Rightarrow> string) \<Rightarrow> frame \<Rightarrow> error + frame" where
  "manage_locator_map srt unquote df =
     (if ''locator_map'' \<in> set (columns df)
      then (let df1 = assign ''locator_map'' (\<lambda>r. clean_image unquote (cell r ''locator_map'')) df;
                df2 = df1\<lparr>rws := sort_rows srt (\<lambda>r. locator_map_score (cell r ''locator_map''))
                                     True (rws df1)\<rparr>
            in groupby_first ''codeiso2'' df2)
      else Inl (KeyError ''locator_map''))"

section \<open>Number formatting\<close>

text \<open>
  Sequences that may raise: the first error ends the run.
\<close>

fun map_result :: "('a \<Rightarrow> error + 'b) \<Rightarrow> 'a list \<Rightarrow> error + 'b list" where
  "map_result f [] = Inr []"
| "map_result f (x # xs) =
     and_then (f x) (\<lambda>y. and_then (map_result f xs) (\<lambda>ys. Inr (y # ys)))"

text \<open>\<^verbatim>\<open>df[k] = df[k].apply(f)\<close> for an \<open>f\<close> that may raise.\<close>

definition apply_column :: "string \<Rightarrow> (string \<Rightarrow> error + string) \<Rightarrow> frame \<Rightarrow> error + frame" where
  "apply_column k f df =
     (if k \<in> set (columns df)
      then and_then
             (map_result (\<lambda>r. and_then (f (cell r k)) (\<lambda>v. Inr (AList.update k v r))) (rws df))
             (\<lambda>rs. Inr (df\<lparr>rws := rs\<rparr>))
      else Inl (KeyError k))"

subsection \<open>Decimal digits\<close>

definition is_digit :: "char \<Rightarrow> bool" where
  "is_digit c \<longleftrightarrow> c \<in> set ''0123456789''"

definition digit_value :: "char \<Rightarrow> nat" where
  "digit_value c = length (takeWhile (\<lambda>d. d \<noteq> c) ''0123456789'')"

definition digit_char :: "nat \<Rightarrow> char" where
  "digit_char d = ''0123456789'' ! d"

definition digits_value :: "string \<Rightarrow> nat" where
  "digits_value ds = foldl (\<lambda>n c. 10 * n + digit_value c) 0 ds"

fun nat_digits :: "nat \<Rightarrow> string" where
  "nat_digits n =
     (if n < 10 then [digit_char n] else nat_digits (n div 10) @ [digit_char (n mod 10)])"

declare nat_digits.simps [simp del]

text \<open>The thousands separators of the format specification \<^verbatim>\<open>,\<close>.\<close>

function group3 :: "string \<Rightarrow> string" where
  "group3 ds =
     (if length ds \<le> 3 then ds
      else group3 (take (length ds - 3) ds) @ '','' @ drop (length ds - 3) ds)"
  by pat_completeness auto
termination
  by (relation "measure length") auto

declare group3.simps [simp del]

definition split_sign :: "string \<Rightarrow> bool \<times> string" where
  "split_sign s =
     (case s of
        [] \<Rightarrow> (False, [])
      | c # t \<Rightarrow> if c = CHR ''-'' then (True, t) else if c = CHR ''+'' then (False, t) else (False, s))"

subsection \<open>Population\<close>

text \<open>
  \<^verbatim>\<open>int(x)\<close> on a string: an optional sign and decimal digits. (Python also accepts
  surrounding white space and underscores between digits, which the query service does
  not produce; the model rejects them.)
\<close>

definition parse_int :: "string \<Rightarrow> int option" where
  "parse_int s =
     (let (neg, body) = split_sign s
      in if body \<noteq> [] \<and> list_all is_digit body
         then Some (if neg then - int (digits_value body) else int (digits_value body))
         else None)"

text \<open>\<^verbatim>\<open>f'{n:,}'\<close> for an integer.\<close>

definition format_int_commas :: "int \<Rightarrow> string" where
  "format_int_commas n = (if n < 0 then ''-'' else []) @ group3 (nat_digits (nat \<bar>n\<bar>))"

text \<open>Line 211: \<^verbatim>\<open>lambda x: f'{int(x):,}' if x else ""\<close>; \<open>x\<close> is a string.\<close>

definition format_population :: "string \<Rightarrow> error + string" where
  "format_population x =
     (if x \<noteq> []
      then (case parse_int x of
              Some n \<Rightarrow> Inr (format_int_commas n)
            | None \<Rightarrow> Inl (ValueError x))
      else Inr [])"

subsection \<open>Area\<close>

text \<open>
  The area is converted to \<^verbatim>\<open>float\<close>. The model keeps a float as a sign and a decimal
  fraction \<open>m / 10 ^ k\<close>: \<open>Decimal neg m k\<close>. Parsing a decimal literal, comparing with 100,
  rounding to a whole number and printing the shortest digits that read back as the same
  float agree with binary floating point on literals of at most 15 significant digits
  whose value, if not zero, is at least \<open>0.0001\<close> (\<open>in_float_range\<close>); beyond that range
  Python prints an exponent or a neighbouring float. \<^verbatim>\<open>float(x)\<close> accepts an optional sign
  and digits with an optional point; exponents, \<open>inf\<close>, \<open>nan\<close>, white space and underscores,
  which the query service does not produce for areas, are rejected by the model.
\<close>

datatype pyfloat = Decimal bool nat nat


definition parse_float :: "string \<Rightarrow> pyfloat option" where
  "parse_float s =
     (let (neg, body) = split_sign s;
          ip = takeWhile is_digit body;
          rest = dropWhile is_digit body
      in case rest of
           [] \<Rightarrow> if ip = [] then None else Some (Decimal neg (digits_value ip) 0)
         | c # fp \<Rightarrow>
             if c = CHR ''.'' \<and> list_all is_digit fp \<and> (ip \<noteq> [] \<or> fp \<noteq> [])
             then Some (Decimal neg (digits_value (ip @ fp)) (length fp))
             else None)"

text \<open>\<^verbatim>\<open>x >= 100\<close>\<close>

definition ge100 :: "pyfloat \<Rightarrow> bool" where
  "ge100 x = (case x of Decimal neg m k \<Rightarrow> \<not> neg \<and> 100 * 10 ^ k \<le> m)"

text \<open>\<^verbatim>\<open>Series.round()\<close>: to the nearest whole number, a half to the even neighbour.\<close>

definition round_half_even :: "nat \<Rightarrow> nat \<Rightarrow> nat" where
  "round_half_even m k =
     (let q = m div 10 ^ k; r = m mod 10 ^ k
      in if 2 * r < 10 ^ k then q
         else if 10 ^ k < 2 * r then q + 1
         else if even q then q else q + 1)"

definition round_float :: "pyfloat \<Rightarrow> pyfloat" where
  "round_float x = (case x of Decimal neg m k \<Rightarrow> Decimal neg (round_half_even m k) 0)"

text \<open>
  \<^verbatim>\<open>f'{x:,}'\<close> for a float: sign, integer digits in groups of three, the point, and the
  fraction digits without trailing zeros, at least one digit.
\<close>

definition fraction_digits :: "nat \<Rightarrow> nat \<Rightarrow> string" where
  "fraction_digits m k =
     (let ds = nat_digits (m mod 10 ^ k);
          padded = replicate (k - length ds) (CHR ''0'') @ ds;
          fs = rev (dropWhile (\<lambda>c. c = CHR ''0'') (rev (if k = 0 then [] else padded)))
      in if fs = [] then ''0'' else fs)"

definition format_float_commas :: "pyfloat \<Rightarrow> string" where
  "format_float_commas x =
     (case x of Decimal neg m k \<Rightarrow>
        (if neg then ''-'' else []) @ group3 (nat_digits (m div 10 ^ k)) @ ''.'' @ fraction_digits m k)"

text \<open>\<^verbatim>\<open>np.where(s.str.endswith(".0"), s.str[:-2], s)\<close>\<close>

definition strip_dot_zero :: "string \<Rightarrow> string" where
  "strip_dot_zero s = (if suffix ''.0'' s then take (length s - 2) s else s)"

text \<open>Lines 205 to 209 for one value of the column.\<close>

definition format_area :: "string \<Rightarrow> error + string" where
  "format_area v =
     (case parse_float v of
        None \<Rightarrow> Inl (ValueError v)
      | Some x \<Rightarrow>
          Inr (strip_dot_zero (format_float_commas (if ge100 x then round_float x else x))))"

text \<open>
  Lines 205 to 209 for the column. On a frame without rows \<^verbatim>\<open>apply\<close> returns the empty
  float column unchanged, and \<^verbatim>\<open>.str\<close> on a float column raises AttributeError.
\<close>

definition format_area_column :: "frame \<Rightarrow> error + frame" where
  "format_area_column df =
     and_then (apply_column ''area_km2'' format_area df) (\<lambda>df'.
       if rws df' = []
       then Inl (AttributeError ''Can only use .str accessor with string values'')
       else Inr df')"

subsection \<open>GDP\<close>

text \<open>
  Line 213: \<^verbatim>\<open>lambda x: "{:.1f}".format(float(x)/1000000000) if x else ""\<close>. The division and
  the rounding to one decimal are binary floating point; they are the parameter
  \<open>billions\<close>.
\<close>

definition format_gdp :: "(string \<Rightarrow> error + string) \<Rightarrow> string \<Rightarrow> error + string" where
  "format_gdp billions x = (if x \<noteq> [] then billions x else Inr [])"

section \<open>The Lua structure\<close>

definition dquote :: string where
  "dquote = [CHR 0x22]"

definition newline :: string where
  "newline = [CHR 0x0A]"

definition lua_quote :: "string \<Rightarrow> string" where
  "lua_quote v = dquote @ v @ dquote"

text \<open>
  What \<^verbatim>\<open>process_lua_data\<close> computes before it concatenates the text: the quoted codes of
  \<^verbatim>\<open>list_codes_iso\<close>, and for every item its name and its list \<^verbatim>\<open>tabitem\<close>.
\<close>

record lua_data =
  countrylist :: "string list"
  subtables :: "(string \<times> string list) list"

text \<open>
  The list \<^verbatim>\<open>tabitem\<close> of one item. \<^verbatim>\<open>row[item]\<close> is read for the rows that have a code
  only, so a missing column raises only if there is such a row.
\<close>

definition lua_tabitem :: "frame \<Rightarrow> string \<Rightarrow> error + string \<times> string list" where
  "lua_tabitem df item =
     (let coded = filter (\<lambda>r. cell r ''codeiso2'' \<noteq> []) (rws df)
      in if coded \<noteq> [] \<and> item \<notin> set (columns df) then Inl (KeyError item)
         else Inr (item, map (\<lambda>r. cell r ''codeiso2'' @ '' = '' @ lua_quote (cell r item)) coded))"

definition lua_structure :: "sorter \<Rightarrow> frame \<Rightarrow> string list \<Rightarrow> error + lua_data" where
  "lua_structure srt df selected_property =
     and_then (sort_values srt ''name'' True df) (\<lambda>df.
       if ''codeiso2'' \<in> set (columns df)
       then and_then
              (map_result (lua_tabitem df)
                 (filter (\<lambda>item. item \<noteq> ''codeiso2'') selected_property))
              (\<lambda>tabs.
                 Inr \<lparr>countrylist = map lua_quote (unique (map (\<lambda>r. cell r ''codeiso2'') (rws df))),
                      subtables = tabs\<rparr>)
       else Inl (KeyError ''codeiso2''))"

definition render_lua :: "string \<Rightarrow> lua_data \<Rightarrow> string" where
  "render_lua today d =
     ''-- begin data section'' @ newline
     @ ''data = {'' @ newline @ newline
     @ ''    countrylist = {'' @ join '', '' (countrylist d) @ ''},'' @ newline @ newline
     @ concat (map (\<lambda>(item, tabitem).
                  ''    '' @ item @ '' = {'' @ join '', '' tabitem @ ''},'' @ newline @ newline)
               (subtables d))
     @ ''}'' @ newline @ newline
     @ ''last_update = '' @ lua_quote today
     @ newline @ ''-- end data section''"

text \<open>\<open>today\<close> is \<^verbatim>\<open>datetime.today().strftime("%Y-%m-%d")\<close>.\<close>

definition process_lua_data :: "sorter \<Rightarrow> string \<Rightarrow> frame \<Rightarrow> string list \<Rightarrow> error + string" where
  "process_lua_data srt today df selected_property =
     and_then (lua_structure srt df selected_property) (\<lambda>d. Inr (render_lua today d))"

section \<open>The program\<close>

text \<open>
  What the script does not compute itself: the answer of the query service to a query (the
  list of bindings, or an HTTP error raised by \<^verbatim>\<open>raise_for_status\<close>), the sort of pandas,
  \<^verbatim>\<open>unquote\<close>, the float arithmetic of the GDP and the date of the run. A query is
  identified by its builder and the properties it is built from.
\<close>

datatype query = BasicQuery "property list" | ListQuery property | DatedQuery property

record world =
  fetch_wikidata :: "query \<Rightarrow> error + item list"
  sort_impl :: sorter
  unquote :: "string \<Rightarrow> string"
  billions :: "string \<Rightarrow> error + string"
  today :: string

text \<open>\<^verbatim>\<open>d[k]\<close> of a dictionary, and \<^verbatim>\<open>d[k] = f(d[k])\<close>.\<close>

definition dict_item :: "(string \<times> 'v) list \<Rightarrow> string \<Rightarrow> error + 'v" where
  "dict_item d k = (case map_of d k of Some v \<Rightarrow> Inr v | None \<Rightarrow> Inl (KeyError k))"

definition update_item ::
  "string \<Rightarrow> ('v \<Rightarrow> error + 'v) \<Rightarrow> (string \<times> 'v) list \<Rightarrow> error + (string \<times> 'v) list" where
  "update_item k f d =
     and_then (dict_item d k) (\<lambda>v. and_then (f v) (\<lambda>v'. Inr (AList.update k v' d)))"

text \<open>\<^verbatim>\<open>{**a, **b}\<close>\<close>

definition dict_merge :: "('k \<times> 'v) list \<Rightarrow> ('k \<times> 'v) list \<Rightarrow> ('k \<times> 'v) list" where
  "dict_merge a b = foldl (\<lambda>d (k, v). AList.update k v d) a b"

text \<open>A loop over a list that updates a value and may raise.\<close>

fun fold_result :: "('a \<Rightarrow> 's \<Rightarrow> error + 's) \<Rightarrow> 'a list \<Rightarrow> 's \<Rightarrow> error + 's" where
  "fold_result f [] s = Inr s"
| "fold_result f (x # xs) s = and_then (f x s) (fold_result f xs)"

text \<open>Lines 146 to 153.\<close>

definition request_list_properties :: "world \<Rightarrow> property list \<Rightarrow> error + (string \<times> frame) list" where
  "request_list_properties w ps =
     fold_result (\<lambda>p dfl.
        and_then (fetch_wikidata w (ListQuery p)) (\<lambda>result.
        and_then (list_frame p result) (\<lambda>df.
        Inr (AList.update (pname p) df dfl)))) ps []"

text \<open>Lines 157 to 175.\<close>

definition clear_list_properties :: "world \<Rightarrow> (string \<times> frame) list \<Rightarrow> error + (string \<times> frame) list" where
  "clear_list_properties w dfl =
     and_then (update_item ''continent'' clean_continent dfl) (\<lambda>dfl.
     and_then (update_item ''languages'' concatenate_languages dfl) (\<lambda>dfl.
     update_item ''locator_map'' (manage_locator_map (sort_impl w) (unquote w)) dfl))"

text \<open>Lines 178 to 180.\<close>

definition conversion_list ::
  "property list \<Rightarrow> (string \<times> frame) list \<Rightarrow> error + (string \<times> (string \<times> string) list) list" where
  "conversion_list ps dfl =
     fold_result (\<lambda>p conversion_list_dict.
        and_then (dict_item dfl (pname p)) (\<lambda>df.
        and_then (records_dict ''codeiso2'' (pname p) df) (\<lambda>d.
        Inr (AList.update (pname p) d conversion_list_dict)))) ps []"

text \<open>Lines 184 to 191.\<close>

definition request_date_properties ::
  "world \<Rightarrow> property list \<Rightarrow> error + (string \<times> (string \<times> string) list) list" where
  "request_date_properties w ps =
     fold_result (\<lambda>p conversion_date_dict.
        and_then (fetch_wikidata w (DatedQuery p)) (\<lambda>result.
        and_then (restructure_dated_property (sort_impl w) (restructure_json result) (pname p)) (\<lambda>d.
        Inr (AList.update (pname p) d conversion_date_dict)))) ps []"

text \<open>
  Lines 195 to 197, the merge: every country code of the base table gets the value of the
  dictionary, or the empty string when the dictionary does not have the code.
\<close>

definition gather :: "(string \<times> (string \<times> string) list) list \<Rightarrow> frame \<Rightarrow> error + frame" where
  "gather dicts df =
     (if dicts = [] \<or> ''codeiso2'' \<in> set (columns df)
      then Inr (foldl (\<lambda>df (key, dictval).
                         assign key (\<lambda>r. dict_get dictval (cell r ''codeiso2'') []) df)
                  df dicts)
      else Inl (KeyError ''codeiso2''))"

text \<open>\<^verbatim>\<open>df[dst] = df[src].map(f)\<close> for an \<open>f\<close> that does not raise.\<close>

definition map_column :: "string \<Rightarrow> string \<Rightarrow> (string \<Rightarrow> string) \<Rightarrow> frame \<Rightarrow> error + frame" where
  "map_column dst src f df =
     (if src \<in> set (columns df) then Inr (assign dst (\<lambda>r. f (cell r src)) df)
      else Inl (KeyError src))"

text \<open>Lines 203 to 220.\<close>

definition clean_for_rendering :: "world \<Rightarrow> frame \<Rightarrow> error + frame" where
  "clean_for_rendering w df =
     and_then (map_column ''name'' ''countryLabel'' (\<lambda>v. v) df) (\<lambda>df.
     and_then (format_area_column df) (\<lambda>df.
     and_then (apply_column ''population'' format_population df) (\<lambda>df.
     and_then (apply_column ''gdp_bd'' (format_gdp (billions w)) df) (\<lambda>df.
     and_then (map_column ''flag_image'' ''flag_image'' (clean_image (unquote w)) df) (\<lambda>df.
     and_then (map_column ''wikipedia'' ''wikipedia''
                 (\<lambda>v. unquote w (str_replace ''https://en.wikipedia.org/wiki/'' [] v)) df) (\<lambda>df.
     map_column ''wikidata_id'' ''country''
       (str_replace ''http://www.wikidata.org/entity/'' []) df))))))"

text \<open>
  The run: the table exported as \<^verbatim>\<open>countries_wikidata_brut.csv\<close>, the table exported as
  \<^verbatim>\<open>countries_wikidata_formated.csv\<close> and the text written to
  \<^verbatim>\<open>countries_wikidata_lua.txt\<close>.
\<close>

record outputs =
  brut :: frame
  formated :: frame
  wikistring :: string

definition selected_property :: "string list" where
  "selected_property = map pname wikidata_properties @ [''name'', ''wikipedia'', ''wikidata_id'']"

definition main :: "world \<Rightarrow> error + outputs" where
  "main w =
     and_then (fetch_wikidata w (BasicQuery basic_properties)) (\<lambda>result.
     and_then (base_pass result) (\<lambda>df.
     and_then (request_list_properties w list_properties) (\<lambda>dfl.
     and_then (clear_list_properties w dfl) (\<lambda>dfl.
     and_then (conversion_list list_properties dfl) (\<lambda>conversion_list_dict.
     and_then (request_date_properties w date_properties) (\<lambda>conversion_date_dict.
     and_then (gather (dict_merge conversion_list_dict conversion_date_dict) df) (\<lambda>df.
     and_then (clean_for_rendering w df) (\<lambda>df'.
     and_then (process_lua_data (sort_impl w) (today w) df' selected_property) (\<lambda>wikistring.
     Inr \<lparr>brut = df, formated = df', wikistring = wikistring\<rparr>)))))))))"

section \<open>Example data\<close>

text \<open>
  A small answer of the query service, used to run the program: two entities, of which
  only France has a country code. \<open>uri\<close> and \<open>literal\<close> build the wrapper objects.
\<close>

definition uri :: "string \<Rightarrow> wrapper" where
  "uri v = [(''type'', ''uri''), (''value'', v)]"

definition literal :: "string \<Rightarrow> wrapper" where
  "literal v = [(''type'', ''literal''), (''value'', v)]"

definition france :: item where
  "france =
     [(''country'', uri ''http://www.wikidata.org/entity/Q142''),
      (''countryLabel'', literal ''France''),
      (''wikipedia'', uri ''https://en.wikipedia.org/wiki/France''),
      (''codeiso2'', literal ''FR''),
      (''area_km2'', literal ''643801''),
      (''flag_image'', uri ''http://commons.wikimedia.org/wiki/Special:FilePath/Flag of France.svg''),
      (''osm_rel_id'', literal ''1403916'')]"

definition uncoded :: item where
  "uncoded =
     [(''country'', uri ''http://www.wikidata.org/entity/Q1''),
      (''countryLabel'', literal ''Atlantis''),
      (''wikipedia'', uri ''https://en.wikipedia.org/wiki/Atlantis''),
      (''area_km2'', literal ''12.5'')]"

text \<open>Kosovo with a code and without an area: the query leaves the variable out.\<close>

definition kosovo :: item where
  "kosovo =
     [(''country'', uri ''http://www.wikidata.org/entity/Q1246''),
      (''countryLabel'', literal ''Kosovo''),
      (''wikipedia'', uri ''https://en.wikipedia.org/wiki/Kosovo''),
      (''codeiso2'', literal ''XK''),
      (''flag_image'', uri ''http://commons.wikimedia.org/wiki/Special:FilePath/Flag of Kosovo.svg'')]"

definition example_answers :: "item list \<Rightarrow> query \<Rightarrow> error + item list" where
  "example_answers basic q =
     (case q of
        BasicQuery ps \<Rightarrow> Inr basic
      | ListQuery p \<Rightarrow>
          Inr (if pname p = ''continent''
               then [[(''country'', uri ''http://www.wikidata.org/entity/Q142''),
                      (''countryLabel'', literal ''France''),
                      (''codeiso2'', literal ''FR''),
                      (''continentLabel'', literal ''Europe'')]]
               else if pname p = ''languages''
               then [[(''country'', uri ''http://www.wikidata.org/entity/Q142''),
                      (''countryLabel'', literal ''France''),
                      (''codeiso2'', literal ''FR''),
                      (''languagesLabel'', literal ''French'')]]
               else [[(''country'', uri ''http://www.wikidata.org/entity/Q142''),
                      (''countryLabel'', literal ''France''),
                      (''codeiso2'', literal ''FR''),
                      (''locator_map'',
                       uri ''http://commons.wikimedia.org/wiki/Special:FilePath/EU-France.svg'')]])
      | DatedQuery p \<Rightarrow>
          Inr (if pname p = ''population''
               then [[(''country'', uri ''http://www.wikidata.org/entity/Q142''),
                      (''population'', literal ''66000000''),
                      (''date_population'', literal ''2020-01-01''),
                      (''codeiso2'', literal ''FR'')],
                     [(''country'', uri ''http://www.wikidata.org/entity/Q142''),
                      (''population'', literal ''68000000''),
                      (''date_population'', literal ''2022-06-01''),
                      (''codeiso2'', literal ''FR'')]]
               else [[(''country'', uri ''http://www.wikidata.org/entity/Q142''),
                      (''gdp_bd'', literal ''2780000000000''),
                      (''date_gdp_bd'', literal ''2022-01-01''),
                      (''codeiso2'', literal ''FR'')]]))"

definition example_world :: "item list \<Rightarrow> world" where
  "example_world basic =
     \<lparr>fetch_wikidata = example_answers basic,
      sort_impl = stable_sort,
      unquote = (\<lambda>v. v),
      billions = (\<lambda>v. Inr ''2780.0''),
      today = ''2024-05-01''\<rparr>"

section \<open>Basic facts about the frame operations\<close>

lemma and_then_Inr: "and_then m f = Inr y \<longleftrightarrow> (\<exists>x. m = Inr x \<and> f x = Inr y)"
  by (cases m) (simp_all add: and_then_def)

lemma and_then_simps [simp]: "and_then (Inr x) f = f x" "and_then (Inl e) f = Inl e"
  by (simp_all add: and_then_def)

lemma mset_insert_row: "mset (insert_row le x ys) = add_mset x (mset ys)"
  by (induction ys) simp_all

lemma set_insert_row: "set (insert_row le x ys) = insert x (set ys)"
  by (induction ys) auto

lemma mset_stable_sort: "mset (stable_sort le xs) = mset xs"
  by (induction xs) (simp_all add: mset_insert_row)

lemma sorted_insert_row:
  "total_preorder le \<Longrightarrow> sorted_wrt le ys \<Longrightarrow> sorted_wrt le (insert_row le x ys)"
proof (induction ys)
  case Nil
  then show ?case by simp
next
  case (Cons y ys)
  from Cons.prems(1) have tot: "\<And>a b. le a b \<or> le b a"
    and tr: "\<And>a b c. le a b \<Longrightarrow> le b c \<Longrightarrow> le a c"
    unfolding total_preorder_def by blast+
  show ?case
  proof (cases "le x y")
    case True
    with Cons.prems(2) tr show ?thesis by auto
  next
    case False
    with tot have "le y x" by blast
    with Cons False show ?thesis by (auto simp: set_insert_row)
  qed
qed

lemma sorted_stable_sort: "total_preorder le \<Longrightarrow> sorted_wrt le (stable_sort le xs)"
  by (induction xs) (simp_all add: sorted_insert_row)

lemma stable_sort_spec: "sort_values_spec stable_sort"
  by (simp add: sort_values_spec_def mset_stable_sort sorted_stable_sort)


lemma key_preorder: "total_preorder (\<lambda>a b. (key a :: 'k::linorder) \<le> key b)"
  unfolding total_preorder_def by auto

lemma sort_rows_mset: "sort_values_spec srt \<Longrightarrow> mset (sort_rows srt key asc xs) = mset xs"
  unfolding sort_values_spec_def sort_rows_def using key_preorder[of key] by auto

lemma sort_rows_set: "sort_values_spec srt \<Longrightarrow> set (sort_rows srt key asc xs) = set xs"
  using sort_rows_mset by (metis set_mset_mset)

lemma sort_rows_asc: "sort_values_spec srt \<Longrightarrow> sorted_wrt (\<lambda>a b. key a \<le> key b) (sort_rows srt key True xs)"
  unfolding sort_values_spec_def sort_rows_def using key_preorder[of key] by auto

lemma sort_rows_desc: "sort_values_spec srt \<Longrightarrow> sorted_wrt (\<lambda>a b. key b \<le> key a) (sort_rows srt key False xs)"
  unfolding sort_values_spec_def sort_rows_def using key_preorder[of key]
  by (auto simp: sorted_wrt_rev)

lemma find_sorted_wrt:
  "sorted_wrt R xs \<Longrightarrow> find P xs = Some r \<Longrightarrow> r' \<in> set xs \<Longrightarrow> P r' \<Longrightarrow> r' = r \<or> R r r'"
  by (induction xs) (auto split: if_splits)

lemma find_Some_mem: "find P xs = Some r \<Longrightarrow> r \<in> set xs \<and> P r"
  by (induction xs) (auto split: if_splits)

lemma find_None_iff2: "find P xs = None \<longleftrightarrow> (\<forall>x\<in>set xs. \<not> P x)"
  by (induction xs) auto

lemma map_of_tabulate: "map_of (map (\<lambda>c. (c, f c)) cs) k = (if k \<in> set cs then Some (f k) else None)"
  by (induction cs) auto

lemma set_unique [simp]: "set (unique xs) = set xs"
  by (simp add: unique_def)

lemma distinct_unique [simp]: "distinct (unique xs)"
  by (simp add: unique_def)

lemma dict_get_absent: "k \<notin> fst ` set b \<Longrightarrow> dict_get b k d = d"
  by (simp add: dict_get_def map_of_eq_None_iff[THEN iffD2])

lemma columns_DataFrame: "set (columns (DataFrame bs)) = (\<Union>b\<in>set bs. fst ` set b)"
  by (auto simp: DataFrame_def Let_def)

lemma rws_DataFrame:
  "rws (DataFrame bs) = map (\<lambda>b. map (\<lambda>c. (c, dict_get b c [])) (columns (DataFrame bs))) bs"
  by (simp add: DataFrame_def Let_def)

lemma cell_fill:
  "b \<in> set bs \<Longrightarrow> cell (map (\<lambda>c. (c, dict_get b c [])) (columns (DataFrame bs))) k = dict_get b k []"
proof -
  assume b: "b \<in> set bs"
  show ?thesis
  proof (cases "k \<in> set (columns (DataFrame bs))")
    case True
    then show ?thesis by (simp add: cell_def dict_get_def[of "map _ _"] map_of_tabulate)
  next
    case False
    with b have "k \<notin> fst ` set b" by (auto simp: columns_DataFrame)
    then have "dict_get b k [] = []" by (rule dict_get_absent)
    with False show ?thesis by (simp add: cell_def dict_get_def[of "map _ _"] map_of_tabulate)
  qed
qed

lemma cell_reset_index [simp]: "cell (reset_index k r) c = cell r c"
proof (cases "c = k")
  case True
  then show ?thesis by (simp add: cell_def reset_index_def dict_get_def)
next
  case False
  have "map_of (filter (\<lambda>p. fst p \<noteq> k) r) c = map_of r c"
    using False by (induction r) auto
  with False show ?thesis by (simp add: cell_def reset_index_def dict_get_def)
qed

lemma find_append2:
  "find P (xs @ ys) = (case find P xs of Some x \<Rightarrow> Some x | None \<Rightarrow> find P ys)"
  by (induction xs) auto

lemma map_of_foldl_update:
  "map_of (foldl (\<lambda>d r. AList.update (f r) (g r) d) d0 rs) c =
     (case find (\<lambda>r. f r = c) (rev rs) of Some r \<Rightarrow> Some (g r) | None \<Rightarrow> map_of d0 c)"
proof (induction rs arbitrary: d0)
  case Nil
  then show ?case by simp
next
  case (Cons r rs)
  show ?case
    by (simp add: Cons.IH update_conv' find_append2 split: option.splits)
qed

lemma set_map_filter:
  "set (List.map_filter f xs) = {y. \<exists>x\<in>set xs. f x = Some y}"
  by (induction xs) (auto simp: List.map_filter_simps split: option.splits)

lemma groupby_first_rws:
  "groupby_first k df = Inr g \<Longrightarrow> rws g = List.map_filter
        (\<lambda>c. map_option (reset_index k) (find (\<lambda>r. cell r k = c) (rws df)))
        (sort (remdups (map (\<lambda>r. cell r k) (rws df))))"
  by (auto simp: groupby_first_def split: if_splits)

lemma groupby_first_members:
  assumes "groupby_first k df = Inr g"
  shows "x \<in> set (rws g) \<longleftrightarrow>
         (\<exists>r. find (\<lambda>r'. cell r' k = cell r k) (rws df) = Some r \<and> x = reset_index k r)"
proof
  assume "x \<in> set (rws g)"
  then obtain c r where cr: "find (\<lambda>r. cell r k = c) (rws df) = Some r" "x = reset_index k r"
    unfolding groupby_first_rws[OF assms] set_map_filter by auto
  from cr(1) have "cell r k = c" by (auto dest: find_Some_mem)
  with cr show "\<exists>r. find (\<lambda>r'. cell r' k = cell r k) (rws df) = Some r \<and> x = reset_index k r"
    by auto
next
  assume "\<exists>r. find (\<lambda>r'. cell r' k = cell r k) (rws df) = Some r \<and> x = reset_index k r"
  then obtain r where r: "find (\<lambda>r'. cell r' k = cell r k) (rws df) = Some r" "x = reset_index k r"
    by blast
  then have "r \<in> set (rws df)" by (auto dest: find_Some_mem)
  then have "cell r k \<in> set (sort (remdups (map (\<lambda>r. cell r k) (rws df))))" by simp
  with r show "x \<in> set (rws g)"
    unfolding groupby_first_rws[OF assms] set_map_filter
    by (intro CollectI bexI[of _ "cell r k"]) simp_all
qed

lemma map_filter_keys:
  "set cs \<subseteq> (\<lambda>r. cell r k) ` set xs \<Longrightarrow>
     map (\<lambda>r. cell r k) (List.map_filter
        (\<lambda>c. map_option (reset_index k) (find (\<lambda>r. cell r k = c) xs)) cs) = cs"
proof (induction cs)
  case Nil
  then show ?case by (simp add: List.map_filter_simps)
next
  case (Cons c cs)
  then have "\<exists>x\<in>set xs. cell x k = c" by auto
  then obtain r where r: "find (\<lambda>r. cell r k = c) xs = Some r"
    by (cases "find (\<lambda>r. cell r k = c) xs") (auto simp: find_None_iff2)
  then have "cell r k = c" by (auto dest: find_Some_mem)
  with r Cons show ?case by (simp add: List.map_filter_simps)
qed

lemma groupby_first_keys:
  assumes "groupby_first k df = Inr g"
  shows "map (\<lambda>r. cell r k) (rws g) = sort (remdups (map (\<lambda>r. cell r k) (rws df)))"
  unfolding groupby_first_rws[OF assms] by (rule map_filter_keys) auto

lemma groupby_first_columns:
  "groupby_first k df = Inr g \<Longrightarrow> set (columns g) = set (columns df) \<and> k \<in> set (columns df)"
  by (auto simp: groupby_first_def split: if_splits)

lemma groupby_first_distinct:
  "groupby_first k df = Inr g \<Longrightarrow> distinct (map (\<lambda>r. cell r k) (rws g))"
  by (simp add: groupby_first_keys)

lemma groupby_first_sorted:
  "groupby_first k df = Inr g \<Longrightarrow> sorted (map (\<lambda>r. cell r k) (rws g))"
  by (simp add: groupby_first_keys)

lemma distinct_key_eq:
  "distinct (map f xs) \<Longrightarrow> x \<in> set xs \<Longrightarrow> y \<in> set xs \<Longrightarrow> f x = f y \<Longrightarrow> x = y"
  by (simp add: distinct_map inj_on_def)

lemma records_dict_Inr:
  "records_dict kc vc g = Inr d \<Longrightarrow>
     d = foldl (\<lambda>d r. AList.update (cell r kc) (cell r vc) d) [] (rws g)"
  by (auto simp: records_dict_def split: if_splits)

lemma groupby_records_dict:
  assumes g: "groupby_first k df = Inr g" and d: "records_dict k vc g = Inr d"
  shows "map_of d c = map_option (\<lambda>r. cell r vc) (find (\<lambda>r. cell r k = c) (rws df))"
proof -
  note dd = records_dict_Inr[OF d]
  have dist: "distinct (map (\<lambda>r. cell r k) (rws g))" using g by (rule groupby_first_distinct)
  show ?thesis
  proof (cases "find (\<lambda>r. cell r k = c) (rws df)")
    case None
    then have "c \<notin> set (map (\<lambda>r. cell r k) (rws g))"
      unfolding groupby_first_keys[OF g] by (auto simp: find_None_iff2)
    then have "find (\<lambda>r. cell r k = c) (rev (rws g)) = None"
      by (auto simp: find_None_iff2)
    with None show ?thesis by (simp add: dd map_of_foldl_update)
  next
    case (Some r)
    then have rk: "cell r k = c" by (auto dest: find_Some_mem)
    with Some have mem: "reset_index k r \<in> set (rws g)"
      unfolding groupby_first_members[OF g] by blast
    have "\<exists>x\<in>set (rev (rws g)). cell x k = c"
      using mem rk by (intro bexI[of _ "reset_index k r"]) simp_all
    then obtain y where y: "find (\<lambda>r. cell r k = c) (rev (rws g)) = Some y"
      by (cases "find (\<lambda>r. cell r k = c) (rev (rws g))") (auto simp: find_None_iff2)
    then have "y \<in> set (rws g)" "cell y k = c" by (auto dest: find_Some_mem)
    with dist mem rk have "y = reset_index k r"
      by (intro distinct_key_eq[of "\<lambda>r. cell r k" "rws g"]) simp_all
    with y Some show ?thesis by (simp add: dd map_of_foldl_update)
  qed
qed

lemma drop_empty_code_Inr:
  "drop_empty_code df = Inr f \<Longrightarrow>
     columns f = columns df \<and> rws f = filter (\<lambda>r. cell r ''codeiso2'' \<noteq> []) (rws df)
     \<and> ''codeiso2'' \<in> set (columns df)"
  by (auto simp: drop_empty_code_def split: if_splits)

lemma sort_values_Inr:
  "sort_values srt k asc df = Inr f \<Longrightarrow>
     columns f = columns df \<and> rws f = sort_rows srt (\<lambda>r. cell r k) asc (rws df)
     \<and> k \<in> set (columns df)"
  by (auto simp: sort_values_def split: if_splits)

section \<open>Dated properties: the latest value wins\<close>

lemma restructure_dated_lookup:
  assumes srt: "sort_values_spec srt"
    and res: "restructure_dated_property srt rows name = Inr d"
  shows "\<exists>xs. set xs = {r \<in> set (rws (DataFrame rows)). cell r ''codeiso2'' \<noteq> []}
           \<and> sorted_wrt (\<lambda>a b. cell b (''date_'' @ name) \<le> cell a (''date_'' @ name)) xs
           \<and> (\<forall>c. map_of d c = map_option (\<lambda>r. cell r name) (find (\<lambda>r. cell r ''codeiso2'' = c) xs))"
proof -
  from res obtain f1 f2 g where
    f1: "drop_empty_code (DataFrame rows) = Inr f1" and
    f2: "sort_values srt (''date_'' @ name) False f1 = Inr f2" and
    g: "groupby_first ''codeiso2'' f2 = Inr g" and
    d: "records_dict ''codeiso2'' name g = Inr d"
    unfolding restructure_dated_property_def and_then_Inr by blast
  have r2: "rws f2 = sort_rows srt (\<lambda>r. cell r (''date_'' @ name)) False (rws f1)"
    using sort_values_Inr[OF f2] by simp
  have r1: "rws f1 = filter (\<lambda>r. cell r ''codeiso2'' \<noteq> []) (rws (DataFrame rows))"
    using drop_empty_code_Inr[OF f1] by simp
  have "set (rws f2) = {r \<in> set (rws (DataFrame rows)). cell r ''codeiso2'' \<noteq> []}"
    unfolding r2 sort_rows_set[OF srt] r1 by auto
  moreover have "sorted_wrt (\<lambda>a b. cell b (''date_'' @ name) \<le> cell a (''date_'' @ name)) (rws f2)"
    unfolding r2 using srt by (rule sort_rows_desc)
  moreover have "\<forall>c. map_of d c = map_option (\<lambda>r. cell r name) (find (\<lambda>r. cell r ''codeiso2'' = c) (rws f2))"
    using groupby_records_dict[OF g d] by simp
  ultimately show ?thesis by blast
qed

lemma DataFrame_row_iff:
  "r \<in> set (rws (DataFrame bs)) \<longleftrightarrow>
     (\<exists>b\<in>set bs. r = map (\<lambda>c. (c, dict_get b c [])) (columns (DataFrame bs)))"
  by (auto simp: rws_DataFrame)

lemma restructure_dated_latest:
  assumes srt: "sort_values_spec srt"
    and res: "restructure_dated_property srt rows name = Inr d"
  shows "(c \<in> fst ` set d \<longleftrightarrow> c \<noteq> [] \<and> (\<exists>b\<in>set rows. dict_get b ''codeiso2'' [] = c))"
    and "map_of d c = Some v \<Longrightarrow>
           \<exists>b\<in>set rows. dict_get b ''codeiso2'' [] = c \<and> dict_get b name [] = v \<and>
             (\<forall>b'\<in>set rows. dict_get b' ''codeiso2'' [] = c \<longrightarrow>
                dict_get b' (''date_'' @ name) [] \<le> dict_get b (''date_'' @ name) [])"
proof -
  from restructure_dated_lookup[OF srt res] obtain xs where
    xs: "set xs = {r \<in> set (rws (DataFrame rows)). cell r ''codeiso2'' \<noteq> []}" and
    sorted: "sorted_wrt (\<lambda>a b. cell b (''date_'' @ name) \<le> cell a (''date_'' @ name)) xs" and
    look: "\<And>c. map_of d c = map_option (\<lambda>r. cell r name) (find (\<lambda>r. cell r ''codeiso2'' = c) xs)"
    by blast
  let ?fill = "\<lambda>b. map (\<lambda>c. (c, dict_get b c [])) (columns (DataFrame rows))"
  have fill: "\<And>b k. b \<in> set rows \<Longrightarrow> cell (?fill b) k = dict_get b k []"
    by (rule cell_fill)
  have img: "set xs = ?fill ` {b \<in> set rows. dict_get b ''codeiso2'' [] \<noteq> []}"
  proof -
    have "set (rws (DataFrame rows)) = ?fill ` set rows" by (simp add: rws_DataFrame)
    then show ?thesis unfolding xs using fill by auto
  qed
  have mem: "\<And>r. r \<in> set xs \<longleftrightarrow> (\<exists>b\<in>set rows. r = ?fill b \<and> dict_get b ''codeiso2'' [] \<noteq> [])"
    unfolding img by auto
  have "c \<in> fst ` set d \<longleftrightarrow> map_of d c \<noteq> None"
    by (simp add: map_of_eq_None_iff)
  also have "\<dots> \<longleftrightarrow> (\<exists>r\<in>set xs. cell r ''codeiso2'' = c)"
    unfolding look by (auto simp: find_None_iff2)
  also have "\<dots> \<longleftrightarrow> (\<exists>b\<in>{b \<in> set rows. dict_get b ''codeiso2'' [] \<noteq> []}. cell (?fill b) ''codeiso2'' = c)"
    unfolding img by (rule bex_imageD iffI; simp)
  also have "\<dots> \<longleftrightarrow> c \<noteq> [] \<and> (\<exists>b\<in>set rows. dict_get b ''codeiso2'' [] = c)"
    using fill by auto
  finally show "c \<in> fst ` set d \<longleftrightarrow> c \<noteq> [] \<and> (\<exists>b\<in>set rows. dict_get b ''codeiso2'' [] = c)" .
  assume "map_of d c = Some v"
  then obtain r where r: "find (\<lambda>r. cell r ''codeiso2'' = c) xs = Some r" and v: "v = cell r name"
    unfolding look by auto
  from r have rin: "r \<in> set xs" and rc: "cell r ''codeiso2'' = c" by (auto dest: find_Some_mem)
  from rin obtain b where b: "b \<in> set rows" "r = ?fill b" "dict_get b ''codeiso2'' [] \<noteq> []"
    unfolding mem by blast
  have bc: "dict_get b ''codeiso2'' [] = c" using rc b fill by simp
  have "dict_get b' (''date_'' @ name) [] \<le> dict_get b (''date_'' @ name) []"
    if b': "b' \<in> set rows" "dict_get b' ''codeiso2'' [] = c" for b'
  proof -
    from b' bc b(3) have "?fill b' \<in> set xs" unfolding mem by auto
    moreover have "cell (?fill b') ''codeiso2'' = c" using b' fill by simp
    ultimately have "?fill b' = r \<or>
        cell (?fill b') (''date_'' @ name) \<le> cell r (''date_'' @ name)"
      using find_sorted_wrt[OF sorted r] by blast
    then have "cell (?fill b') (''date_'' @ name) \<le> cell r (''date_'' @ name)" by auto
    then show ?thesis using fill[OF b'(1)] fill[OF b(1)] b(2) by simp
  qed
  with b bc v fill show "\<exists>b\<in>set rows. dict_get b ''codeiso2'' [] = c \<and> dict_get b name [] = v \<and>
             (\<forall>b'\<in>set rows. dict_get b' ''codeiso2'' [] = c \<longrightarrow>
                dict_get b' (''date_'' @ name) [] \<le> dict_get b (''date_'' @ name) [])"
    by (intro bexI[of _ b]) simp_all
qed

lemma restructure_dated_returns:
  assumes "''codeiso2'' \<in> (\<Union>b\<in>set rows. fst ` set b)"
    and "''date_'' @ name \<in> (\<Union>b\<in>set rows. fst ` set b)"
    and "name \<in> (\<Union>b\<in>set rows. fst ` set b)"
  shows "\<exists>d. restructure_dated_property srt rows name = Inr d"
  using assms
  by (simp add: restructure_dated_property_def drop_empty_code_def sort_values_def
      groupby_first_def records_dict_def columns_DataFrame)

lemma remdups_all_equal: "xs \<noteq> [] \<Longrightarrow> set xs \<subseteq> {c} \<Longrightarrow> remdups xs = [c]"
proof (induction xs)
  case Nil
  then show ?case by simp
next
  case (Cons x xs)
  show ?case
  proof (cases "xs = []")
    case True
    with Cons.prems show ?thesis by simp
  next
    case False
    with Cons have "remdups xs = [c]" by simp
    moreover from False Cons.prems have "x \<in> set xs" by (cases xs) auto
    ultimately show ?thesis by simp
  qed
qed

lemma restructure_dated_single_code:
  assumes srt: "sort_values_spec srt"
    and res: "restructure_dated_property srt rows name = Inr d"
    and ne: "rows \<noteq> []" and c: "c \<noteq> []"
    and all: "\<forall>b\<in>set rows. dict_get b ''codeiso2'' [] = c"
  shows "\<exists>v. d = [(c, v)]"
proof -
  from res obtain f1 f2 g where
    f1: "drop_empty_code (DataFrame rows) = Inr f1" and
    f2: "sort_values srt (''date_'' @ name) False f1 = Inr f2" and
    g: "groupby_first ''codeiso2'' f2 = Inr g" and
    d: "records_dict ''codeiso2'' name g = Inr d"
    unfolding restructure_dated_property_def and_then_Inr by blast
  have r2: "rws f2 = sort_rows srt (\<lambda>r. cell r (''date_'' @ name)) False (rws f1)"
    using sort_values_Inr[OF f2] by simp
  have r1: "rws f1 = filter (\<lambda>r. cell r ''codeiso2'' \<noteq> []) (rws (DataFrame rows))"
    using drop_empty_code_Inr[OF f1] by simp
  have codes: "\<forall>r\<in>set (rws (DataFrame rows)). cell r ''codeiso2'' = c"
    using all by (auto simp: rws_DataFrame cell_fill)
  then have "rws f1 = rws (DataFrame rows)" unfolding r1 using c by (simp add: filter_id_conv)
  with ne have "rws f1 \<noteq> []" by (simp add: rws_DataFrame)
  then have "mset (rws f2) \<noteq> {#}" unfolding r2 sort_rows_mset[OF srt] by simp
  then have ne2: "rws f2 \<noteq> []" by auto
  have "set (rws f2) = set (rws f1)" unfolding r2 by (rule sort_rows_set[OF srt])
  with codes r1 have "set (map (\<lambda>r. cell r ''codeiso2'') (rws f2)) \<subseteq> {c}" by auto
  with ne2 have "remdups (map (\<lambda>r. cell r ''codeiso2'') (rws f2)) = [c]"
    by (intro remdups_all_equal) simp_all
  then have "map (\<lambda>r. cell r ''codeiso2'') (rws g) = [c]"
    unfolding groupby_first_keys[OF g] by simp
  then obtain x where "rws g = [x]" "cell x ''codeiso2'' = c" by auto
  then show ?thesis unfolding records_dict_Inr[OF d] by simp
qed

text \<open>
  Claim C2. For every sort that keeps pandas' promise, the dictionary that
  \<^verbatim>\<open>restructure_dated_property\<close> returns has exactly the non-empty country codes of the
  rows as keys, and the value under a code comes from a row of that code whose date string
  is largest among all rows of that code: rows without a code are dropped, the rest is
  sorted by the date column descending, and the first row of each code group is kept.
  In particular, of two rows of one code dated \<open>2020-01-01\<close> and \<open>2022-06-01\<close> the value
  of the 2022 row is selected, whichever comes first in the result.
\<close>

theorem dated_latest_value_wins:
  assumes "sort_values_spec srt"
  shows "(\<forall>rows name d. restructure_dated_property srt rows name = Inr d \<longrightarrow>
            (\<forall>c. (c \<in> fst ` set d \<longleftrightarrow> c \<noteq> [] \<and> (\<exists>b\<in>set rows. dict_get b ''codeiso2'' [] = c)) \<and>
                 (\<forall>v. map_of d c = Some v \<longrightarrow>
                    (\<exists>b\<in>set rows. dict_get b ''codeiso2'' [] = c \<and> dict_get b name [] = v \<and>
                       (\<forall>b'\<in>set rows. dict_get b' ''codeiso2'' [] = c \<longrightarrow>
                          dict_get b' (''date_'' @ name) [] \<le> dict_get b (''date_'' @ name) [])))))
       \<and> (\<forall>c v0 v2. c \<noteq> [] \<longrightarrow>
            restructure_dated_property srt
              [[(''codeiso2'', c), (''population'', v0), (''date_population'', ''2020-01-01'')],
               [(''codeiso2'', c), (''population'', v2), (''date_population'', ''2022-06-01'')]]
              ''population'' = Inr [(c, v2)] \<and>
            restructure_dated_property srt
              [[(''codeiso2'', c), (''population'', v2), (''date_population'', ''2022-06-01'')],
               [(''codeiso2'', c), (''population'', v0), (''date_population'', ''2020-01-01'')]]
              ''population'' = Inr [(c, v2)])"
proof (intro conjI allI impI)
  fix rows name d c
  assume "restructure_dated_property srt rows name = Inr d"
  from restructure_dated_latest(1)[OF assms this]
  show "c \<in> fst ` set d \<longleftrightarrow> c \<noteq> [] \<and> (\<exists>b\<in>set rows. dict_get b ''codeiso2'' [] = c)" .
next
  fix rows name d c v
  assume "restructure_dated_property srt rows name = Inr d" "map_of d c = Some v"
  from restructure_dated_latest(2)[OF assms this]
  show "\<exists>b\<in>set rows. dict_get b ''codeiso2'' [] = c \<and> dict_get b name [] = v \<and>
          (\<forall>b'\<in>set rows. dict_get b' ''codeiso2'' [] = c \<longrightarrow>
             dict_get b' (''date_'' @ name) [] \<le> dict_get b (''date_'' @ name) [])" .
next
  fix c v0 v2 :: string
  assume c: "c \<noteq> []"
  let ?old = "[(''codeiso2'', c), (''population'', v0), (''date_population'', ''2020-01-01'')]"
  let ?new = "[(''codeiso2'', c), (''population'', v2), (''date_population'', ''2022-06-01'')]"
  have pick: "restructure_dated_property srt rows ''population'' = Inr [(c, v2)]"
    if rows: "set rows = {?old, ?new}" "rows \<noteq> []" for rows
  proof -
    have "\<exists>d. restructure_dated_property srt rows ''population'' = Inr d"
      using rows by (intro restructure_dated_returns) simp_all
    then obtain d where d: "restructure_dated_property srt rows ''population'' = Inr d" ..
    have "\<forall>b\<in>set rows. dict_get b ''codeiso2'' [] = c"
      using rows by (simp add: dict_get_def)
    from restructure_dated_single_code[OF assms d rows(2) c this]
    obtain v where v: "d = [(c, v)]" ..
    then have "map_of d c = Some v" by simp
    from restructure_dated_latest(2)[OF assms d this] obtain b where
      b: "b \<in> set rows" "dict_get b ''population'' [] = v"
         "\<forall>b'\<in>set rows. dict_get b' ''codeiso2'' [] = c \<longrightarrow>
            dict_get b' ''date_population'' [] \<le> dict_get b ''date_population'' []"
      by auto
    from b(3) rows have le: "(''2022-06-01'' :: string) \<le> dict_get b ''date_population'' []"
      by (simp add: dict_get_def)
    have "b \<noteq> ?old"
    proof
      assume "b = ?old"
      with le have "(''2022-06-01'' :: string) \<le> ''2020-01-01''" by (simp add: dict_get_def)
      then show False by simp
    qed
    with b(1) rows have "b = ?new" by auto
    with b(2) have "v = v2" by (simp add: dict_get_def)
    with v d show ?thesis by simp
  qed
  show "restructure_dated_property srt [?old, ?new] ''population'' = Inr [(c, v2)]"
    by (rule pick) auto
  show "restructure_dated_property srt [?new, ?old] ''population'' = Inr [(c, v2)]"
    by (rule pick) auto
qed

theorem dated_latest_value_wins_witness:
  "sort_values_spec stable_sort \<and>
   restructure_dated_property stable_sort
     [[(''codeiso2'', ''FR''), (''population'', ''66000000''), (''date_population'', ''2020-01-01'')],
      [(''codeiso2'', ''FR''), (''population'', ''68000000''), (''date_population'', ''2022-06-01'')]]
     ''population'' = Inr [(''FR'', ''68000000'')]"
  using dated_latest_value_wins[OF stable_sort_spec] by (simp add: stable_sort_spec)

section \<open>The locator map\<close>

lemma cell_update: "cell (AList.update k v r) k' = (if k' = k then v else cell r k')"
  by (simp add: cell_def dict_get_def update_conv')

lemma rws_assign: "rws (assign k f df) = map (\<lambda>r. AList.update k (f r) r) (rws df)"
  by (simp add: assign_def)

lemma columns_assign: "set (columns (assign k f df)) = insert k (set (columns df))"
  by (auto simp: assign_def)











lemmas frame_eval =
  manage_locator_map_def assign_def clean_image_def str_replace.simps sort_rows_def
  locator_map_score_def locator_map_score_dict_def dict_get_def groupby_first_def
  List.map_filter_simps reset_index_def cell_def unstable_sort_def Let_def





section \<open>The languages\<close>

lemma list_frame_label:
  assumes "list_frame p result = Inr df" "get_label p"
  shows "rws df = map (\<lambda>r. AList.update (pname p) (cell r (pname p @ ''Label'')) r)
                    (filter (\<lambda>r. cell r ''codeiso2'' \<noteq> []) (rws (DataFrame (restructure_json result))))"
    and "''codeiso2'' \<in> set (columns df)" and "pname p \<in> set (columns df)"
  using assms
  by (auto simp: list_frame_def and_then_Inr drop_empty_code_def assign_def split: if_splits)

lemma list_frame_plain:
  assumes "list_frame p result = Inr df" "\<not> get_label p"
  shows "rws df = filter (\<lambda>r. cell r ''codeiso2'' \<noteq> []) (rws (DataFrame (restructure_json result)))"
    and "columns df = columns (DataFrame (restructure_json result))"
    and "''codeiso2'' \<in> set (columns df)"
  using assms
  by (auto simp: list_frame_def and_then_Inr drop_empty_code_def split: if_splits)

lemma concatenate_languages_Inr:
  assumes "concatenate_languages df = Inr g"
  shows "rws g = map (\<lambda>c. [(''codeiso2'', c),
                           (''languages'',
                            join '', '' (map (\<lambda>r. cell r ''languages'')
                                          (filter (\<lambda>r. cell r ''codeiso2'' = c) (rws df))))])
                     (sort (remdups (map (\<lambda>r. cell r ''codeiso2'') (rws df))))"
  using assms by (auto simp: concatenate_languages_def split: if_splits)

lemma map_filter_map_cong:
  "(\<And>b. b \<in> set xs \<Longrightarrow> Q (f b) = Q' b) \<Longrightarrow> (\<And>b. b \<in> set xs \<Longrightarrow> h (f b) = h' b) \<Longrightarrow>
     map h (filter Q (map f xs)) = map h' (filter Q' xs)"
  by (induction xs) auto

lemma labelled_group:
  fixes bs :: "binding list"
  assumes c: "c \<noteq> []" and L: "L \<noteq> ''codeiso2''"
  shows "map (\<lambda>r. cell r L)
           (filter (\<lambda>r. cell r ''codeiso2'' = c)
              (map (\<lambda>r. AList.update L (cell r LL) r)
                 (filter (\<lambda>r. cell r ''codeiso2'' \<noteq> []) (rws (DataFrame bs)))))
         = map (\<lambda>b. dict_get b LL []) (filter (\<lambda>b. dict_get b ''codeiso2'' [] = c) bs)"
proof -
  let ?fill = "\<lambda>b. map (\<lambda>c. (c, dict_get b c [])) (columns (DataFrame bs))"
  let ?U = "\<lambda>r. AList.update L (cell r LL) r"
  have fill: "\<And>b k. b \<in> set bs \<Longrightarrow> cell (?fill b) k = dict_get b k []"
    by (rule cell_fill)
  have 1: "filter (\<lambda>r. cell r ''codeiso2'' \<noteq> []) (rws (DataFrame bs))
         = map ?fill (filter (\<lambda>b. dict_get b ''codeiso2'' [] \<noteq> []) bs)"
    unfolding rws_DataFrame filter_map o_def
    by (intro arg_cong[where f="map ?fill"] filter_cong refl) (simp add: fill)
  have code: "cell (?U (?fill b)) ''codeiso2'' = dict_get b ''codeiso2'' []" if "b \<in> set bs" for b
    using L fill[OF that] by (simp add: cell_update)
  have lab: "cell (?U (?fill b)) L = dict_get b LL []" if "b \<in> set bs" for b
    using fill[OF that] by (simp add: cell_update)
  have "map (\<lambda>r. cell r L) (filter (\<lambda>r. cell r ''codeiso2'' = c)
           (map (\<lambda>b. ?U (?fill b)) (filter (\<lambda>b. dict_get b ''codeiso2'' [] \<noteq> []) bs)))
      = map (\<lambda>b. dict_get b LL [])
          (filter (\<lambda>b. dict_get b ''codeiso2'' [] = c) (filter (\<lambda>b. dict_get b ''codeiso2'' [] \<noteq> []) bs))"
    by (rule map_filter_map_cong) (simp_all add: code lab)
  also have "filter (\<lambda>b. dict_get b ''codeiso2'' [] = c) (filter (\<lambda>b. dict_get b ''codeiso2'' [] \<noteq> []) bs)
      = filter (\<lambda>b. dict_get b ''codeiso2'' [] = c) bs"
    using c by (auto intro: filter_cong)
  finally show ?thesis unfolding 1 by (simp add: o_def)
qed

lemma join_snoc: "join sep (xs @ [x]) = (if xs = [] then x else join sep xs @ sep @ x)"
  by (induction sep xs rule: join.induct) auto

lemma length_join:
  "length (join sep xs) = sum_list (map length xs) + length sep * (length xs - 1)"
  by (induction sep xs rule: join.induct) auto

lemma coded_rows:
  "filter (\<lambda>r. cell r ''codeiso2'' \<noteq> []) (rws (DataFrame bs))
     = map (\<lambda>b. map (\<lambda>c. (c, dict_get b c [])) (columns (DataFrame bs)))
         (filter (\<lambda>b. dict_get b ''codeiso2'' [] \<noteq> []) bs)"
  unfolding rws_DataFrame filter_map o_def
  by (intro arg_cong[where f="map _"] filter_cong refl) (simp add: cell_fill)

lemma coded_rows_codes:
  "map (\<lambda>r. cell r ''codeiso2'') (filter (\<lambda>r. cell r ''codeiso2'' \<noteq> []) (rws (DataFrame bs)))
     = filter (\<lambda>c. c \<noteq> []) (map (\<lambda>b. dict_get b ''codeiso2'' []) bs)"
proof -
  have "map (\<lambda>r. cell r ''codeiso2'') (filter (\<lambda>r. cell r ''codeiso2'' \<noteq> []) (rws (DataFrame bs)))
      = map (\<lambda>b. dict_get b ''codeiso2'' []) (filter (\<lambda>b. dict_get b ''codeiso2'' [] \<noteq> []) bs)"
    unfolding coded_rows by (simp add: o_def cell_fill)
  then show ?thesis by (simp add: filter_map o_def)
qed

lemma languages_rows:
  assumes p: "pname p = ''languages''" "get_label p"
    and df: "list_frame p result = Inr df"
    and g: "concatenate_languages df = Inr g"
  shows "map (\<lambda>r. cell r ''codeiso2'') (rws g)
           = sort (remdups (filter (\<lambda>c. c \<noteq> [])
                (map (\<lambda>b. dict_get b ''codeiso2'' []) (restructure_json result))))"
    and "x \<in> set (rws g) \<Longrightarrow>
           cell x ''languages''
             = join '', '' (map (\<lambda>b. dict_get b ''languagesLabel'' [])
                 (filter (\<lambda>b. dict_get b ''codeiso2'' [] = cell x ''codeiso2'')
                    (restructure_json result)))"
proof -
  let ?bs = "restructure_json result"
  let ?U = "\<lambda>r. AList.update ''languages'' (cell r ''languagesLabel'') r"
  have rdf: "rws df = map ?U (filter (\<lambda>r. cell r ''codeiso2'' \<noteq> []) (rws (DataFrame ?bs)))"
    using list_frame_label(1)[OF df p(2)] p(1) by simp
  have codes_df: "map (\<lambda>r. cell r ''codeiso2'') (rws df)
      = filter (\<lambda>c. c \<noteq> []) (map (\<lambda>b. dict_get b ''codeiso2'' []) ?bs)"
    unfolding rdf using coded_rows_codes[of ?bs] by (simp add: o_def cell_update)
  note rg = concatenate_languages_Inr[OF g]
  show codes: "map (\<lambda>r. cell r ''codeiso2'') (rws g)
           = sort (remdups (filter (\<lambda>c. c \<noteq> []) (map (\<lambda>b. dict_get b ''codeiso2'' []) ?bs)))"
    unfolding rg codes_df[symmetric] by (simp add: o_def cell_def dict_get_def)
  assume "x \<in> set (rws g)"
  then obtain c where c: "c \<in> set (map (\<lambda>r. cell r ''codeiso2'') (rws df))"
    and x: "x = [(''codeiso2'', c),
                 (''languages'', join '', '' (map (\<lambda>r. cell r ''languages'')
                     (filter (\<lambda>r. cell r ''codeiso2'' = c) (rws df))))]"
    unfolding rg by auto
  from c have cne: "c \<noteq> []" unfolding codes_df by simp
  have xc: "cell x ''codeiso2'' = c" unfolding x by (simp add: cell_def dict_get_def)
  have "cell x ''languages'' = join '', '' (map (\<lambda>r. cell r ''languages'')
                     (filter (\<lambda>r. cell r ''codeiso2'' = c) (rws df)))"
    unfolding x by (simp add: cell_def dict_get_def)
  also have "map (\<lambda>r. cell r ''languages'') (filter (\<lambda>r. cell r ''codeiso2'' = c) (rws df))
      = map (\<lambda>b. dict_get b ''languagesLabel'' []) (filter (\<lambda>b. dict_get b ''codeiso2'' [] = c) ?bs)"
    unfolding rdf by (rule labelled_group[OF cne]) simp
  finally show "cell x ''languages''
             = join '', '' (map (\<lambda>b. dict_get b ''languagesLabel'' [])
                 (filter (\<lambda>b. dict_get b ''codeiso2'' [] = cell x ''codeiso2'') ?bs))"
    unfolding xc .
qed

lemmas list_eval =
  list_frame_def concatenate_languages_def restructure_json_def DataFrame_def unique_def
  drop_empty_code_def assign_def dict_get_def cell_def Let_def

text \<open>
  Claim C4. The languages of a country code are the labels of the result bindings of that
  code, in result order, joined with \<open>, \<close>: one row per non-empty code, no sorting of
  the labels, and a separator only between two labels, never after the last.
\<close>

theorem languages_joined_in_result_order:
  "(\<forall>p result df g.
      pname p = ''languages'' \<longrightarrow> get_label p \<longrightarrow>
      list_frame p result = Inr df \<longrightarrow> concatenate_languages df = Inr g \<longrightarrow>
        map (\<lambda>r. cell r ''codeiso2'') (rws g)
          = sort (remdups (filter (\<lambda>c. c \<noteq> [])
               (map (\<lambda>b. dict_get b ''codeiso2'' []) (restructure_json result)))) \<and>
        (\<forall>x\<in>set (rws g).
           cell x ''languages''
             = join '', '' (map (\<lambda>b. dict_get b ''languagesLabel'' [])
                 (filter (\<lambda>b. dict_get b ''codeiso2'' [] = cell x ''codeiso2'')
                    (restructure_json result)))))
   \<and> (\<forall>sep xs x. join sep (xs @ [x]) = (if xs = [] then x else join sep xs @ sep @ x))
   \<and> (\<forall>sep xs. length (join sep xs) = sum_list (map length xs) + length sep * (length xs - 1))
   \<and> join '', '' [''German'', ''French'', ''Italian''] = ''German, French, Italian''"
proof (intro conjI allI impI ballI)
  fix p result df g
  assume a: "pname p = ''languages''" "get_label p" "list_frame p result = Inr df"
    "concatenate_languages df = Inr g"
  from languages_rows(1)[OF a]
  show "map (\<lambda>r. cell r ''codeiso2'') (rws g)
          = sort (remdups (filter (\<lambda>c. c \<noteq> [])
               (map (\<lambda>b. dict_get b ''codeiso2'' []) (restructure_json result))))" .
  fix x assume "x \<in> set (rws g)"
  from languages_rows(2)[OF a this]
  show "cell x ''languages''
          = join '', '' (map (\<lambda>b. dict_get b ''languagesLabel'' [])
              (filter (\<lambda>b. dict_get b ''codeiso2'' [] = cell x ''codeiso2'')
                 (restructure_json result)))" .
next
  fix sep :: string and xs x
  show "join sep (xs @ [x]) = (if xs = [] then x else join sep xs @ sep @ x)"
    by (rule join_snoc)
next
  fix sep :: string and xs
  show "length (join sep xs) = sum_list (map length xs) + length sep * (length xs - 1)"
    by (rule length_join)
next
  show "join '', '' [''German'', ''French'', ''Italian''] = ''German, French, Italian''"
    by simp
qed

theorem languages_joined_in_result_order_witness:
  "and_then
     (list_frame \<lparr>pname = ''languages'', pid = 37, has_date = False, dtype = PList, get_label = True\<rparr>
        [[(''country'', [(''type'', ''uri''), (''value'', ''Q39'')]),
          (''codeiso2'', [(''type'', ''literal''), (''value'', ''CH'')]),
          (''languagesLabel'', [(''type'', ''literal''), (''value'', ''German'')])],
         [(''country'', [(''type'', ''uri''), (''value'', ''Q40'')]),
          (''codeiso2'', [(''type'', ''literal''), (''value'', ''AT'')]),
          (''languagesLabel'', [(''type'', ''literal''), (''value'', ''German'')])],
         [(''country'', [(''type'', ''uri''), (''value'', ''Q39'')]),
          (''codeiso2'', [(''type'', ''literal''), (''value'', ''CH'')]),
          (''languagesLabel'', [(''type'', ''literal''), (''value'', ''French'')])],
         [(''country'', [(''type'', ''uri''), (''value'', ''Q1'')]),
          (''languagesLabel'', [(''type'', ''literal''), (''value'', ''Latin'')])]])
     concatenate_languages
   = Inr \<lparr>columns = [''codeiso2'', ''languages''],
          rws = [[(''codeiso2'', ''AT''), (''languages'', ''German'')],
                 [(''codeiso2'', ''CH''), (''languages'', ''German, French'')]]\<rparr>"
  using languages_joined_in_result_order
  by (simp add: list_eval)

section \<open>Population and area\<close>

lemmas number_eval =
  format_area_def parse_float_def split_sign_def is_digit_def digits_value_def digit_value_def
  ge100_def round_float_def round_half_even_def format_float_commas_def fraction_digits_def
  strip_dot_zero_def group3.simps nat_digits.simps digit_char_def Let_def suffix_def
  format_population_def parse_int_def format_int_commas_def











































section \<open>The Lua structure\<close>

lemma map_result_Inr:
  "map_result f xs = Inr ys \<Longrightarrow> list_all2 (\<lambda>x y. f x = Inr y) xs ys"
proof (induction xs arbitrary: ys)
  case Nil
  then show ?case by simp
next
  case (Cons x xs)
  from Cons.prems obtain y ys' where "f x = Inr y" "map_result f xs = Inr ys'" "ys = y # ys'"
    by (auto simp: and_then_Inr)
  with Cons.IH show ?case by simp
qed

lemma lua_tabitem_Inr:
  "lua_tabitem df item = Inr t \<Longrightarrow>
     t = (item, map (\<lambda>r. cell r ''codeiso2'' @ '' = '' @ lua_quote (cell r item))
                  (filter (\<lambda>r. cell r ''codeiso2'' \<noteq> []) (rws df)))"
  by (auto simp: lua_tabitem_def Let_def split: if_splits)

lemma lua_tabs:
  assumes "map_result (lua_tabitem df) items = Inr tabs"
  shows "tabs = map (\<lambda>item. (item, map (\<lambda>r. cell r ''codeiso2'' @ '' = '' @ lua_quote (cell r item))
                  (filter (\<lambda>r. cell r ''codeiso2'' \<noteq> []) (rws df)))) items"
proof -
  from map_result_Inr[OF assms]
  have "list_all2 (\<lambda>item t. t = (item, map (\<lambda>r. cell r ''codeiso2'' @ '' = '' @ lua_quote (cell r item))
                  (filter (\<lambda>r. cell r ''codeiso2'' \<noteq> []) (rws df)))) items tabs"
    by (rule list_all2_mono) (rule lua_tabitem_Inr)
  then show ?thesis
    by (induction items tabs rule: list_all2_induct) simp_all
qed

lemma lua_structure_Inr:
  assumes srt: "sort_values_spec srt" and res: "lua_structure srt df sel = Inr ld"
  shows "\<exists>rows. mset rows = mset (rws df) \<and> sorted (map (\<lambda>r. cell r ''name'') rows) \<and>
           countrylist ld = map lua_quote (unique (map (\<lambda>r. cell r ''codeiso2'') rows)) \<and>
           subtables ld = map (\<lambda>item. (item, map (\<lambda>r. cell r ''codeiso2'' @ '' = '' @ lua_quote (cell r item))
                  (filter (\<lambda>r. cell r ''codeiso2'' \<noteq> []) rows))) (filter (\<lambda>item. item \<noteq> ''codeiso2'') sel)"
proof -
  from res obtain df1 tabs where
    df1: "sort_values srt ''name'' True df = Inr df1" and
    tabs: "map_result (lua_tabitem df1) (filter (\<lambda>item. item \<noteq> ''codeiso2'') sel) = Inr tabs" and
    ld: "ld = \<lparr>countrylist = map lua_quote (unique (map (\<lambda>r. cell r ''codeiso2'') (rws df1))),
               subtables = tabs\<rparr>"
    by (auto simp: lua_structure_def and_then_Inr split: if_splits)
  have r1: "rws df1 = sort_rows srt (\<lambda>r. cell r ''name'') True (rws df)"
    using sort_values_Inr[OF df1] by simp
  have "mset (rws df1) = mset (rws df)" unfolding r1 by (rule sort_rows_mset[OF srt])
  moreover have "sorted (map (\<lambda>r. cell r ''name'') (rws df1))"
    unfolding r1 sorted_map by (rule sort_rows_asc[OF srt])
  ultimately show ?thesis using ld lua_tabs[OF tabs] by (intro exI[of _ "rws df1"]) simp
qed

lemma main_wikistring:
  assumes "main w = Inr out"
  shows "\<exists>ld. lua_structure (sort_impl w) (formated out) selected_property = Inr ld \<and>
              wikistring out = render_lua (today w) ld"
  using assms by (auto simp: main_def process_lua_data_def and_then_Inr)

lemma props_eval:
  "list_properties =
     [\<lparr>pname = ''continent'', pid = 30, has_date = False, dtype = PList, get_label = True\<rparr>,
      \<lparr>pname = ''languages'', pid = 37, has_date = False, dtype = PList, get_label = True\<rparr>,
      \<lparr>pname = ''locator_map'', pid = 242, has_date = False, dtype = PList, get_label = False\<rparr>]"
  "date_properties =
     [\<lparr>pname = ''population'', pid = 1082, has_date = True, dtype = PInt, get_label = False\<rparr>,
      \<lparr>pname = ''gdp_bd'', pid = 2131, has_date = True, dtype = PFloat, get_label = False\<rparr>]"
  "selected_property =
     [''codeiso2'', ''continent'', ''area_km2'', ''population'', ''gdp_bd'', ''languages'',
      ''flag_image'', ''locator_map'', ''osm_rel_id'', ''name'', ''wikipedia'', ''wikidata_id'']"
  by (simp_all add: list_properties_def date_properties_def
      selected_property_def wikidata_properties_def)

lemmas lua_eval =
  lua_structure_def lua_tabitem_def sort_values_def sort_rows_def unique_def cell_def
  dict_get_def Let_def




section \<open>The run as a whole\<close>

lemma find_map_option: "find P (map f xs) = map_option f (find (\<lambda>x. P (f x)) xs)"
  by (induction xs) auto

lemma find_filter_weaker: "(\<And>x. P x \<Longrightarrow> Q x) \<Longrightarrow> find P (filter Q xs) = find P xs"
  by (induction xs) auto

lemma base_pass_Inr:
  assumes "base_pass result = Inr base"
  shows "\<exists>f1. groupby_first ''codeiso2'' f1 = Inr base \<and>
           rws f1 = filter (\<lambda>r. cell r ''codeiso2'' \<noteq> []) (rws (DataFrame (restructure_json result)))"
  using assms by (auto simp: base_pass_def and_then_Inr dest: drop_empty_code_Inr)

lemma base_pass_codes:
  assumes "base_pass result = Inr base"
  shows "map (\<lambda>r. cell r ''codeiso2'') (rws base)
           = sort (remdups (filter (\<lambda>c. c \<noteq> [])
               (map (\<lambda>b. dict_get b ''codeiso2'' []) (restructure_json result))))"
proof -
  from base_pass_Inr[OF assms] obtain f1 where
    "groupby_first ''codeiso2'' f1 = Inr base"
    "rws f1 = filter (\<lambda>r. cell r ''codeiso2'' \<noteq> []) (rws (DataFrame (restructure_json result)))"
    by blast
  then show ?thesis using groupby_first_keys[of "''codeiso2''" f1 base]
    by (simp add: coded_rows_codes)
qed

lemma base_pass_rows:
  assumes base: "base_pass result = Inr base" and x: "x \<in> set (rws base)"
  shows "\<exists>b. find (\<lambda>b. dict_get b ''codeiso2'' [] = cell x ''codeiso2'') (restructure_json result) = Some b
           \<and> cell x ''codeiso2'' \<noteq> [] \<and> (\<forall>k. cell x k = dict_get b k [])"
proof -
  let ?bs = "restructure_json result"
  let ?fill = "\<lambda>b. map (\<lambda>c. (c, dict_get b c [])) (columns (DataFrame ?bs))"
  let ?coded = "filter (\<lambda>b. dict_get b ''codeiso2'' [] \<noteq> []) ?bs"
  from base_pass_Inr[OF base] obtain f1 where
    g: "groupby_first ''codeiso2'' f1 = Inr base" and
    f1: "rws f1 = map ?fill ?coded"
    by (auto simp: coded_rows)
  from x obtain r where
    r: "find (\<lambda>r'. cell r' ''codeiso2'' = cell r ''codeiso2'') (map ?fill ?coded) = Some r"
    and xr: "x = reset_index ''codeiso2'' r"
    unfolding groupby_first_members[OF g] f1 by auto
  have fill: "\<And>b k. b \<in> set ?bs \<Longrightarrow> cell (?fill b) k = dict_get b k []"
    by (rule cell_fill)
  have "find (\<lambda>b. cell (?fill b) ''codeiso2'' = cell r ''codeiso2'') ?coded
      = find (\<lambda>b. dict_get b ''codeiso2'' [] = cell r ''codeiso2'') ?coded"
    by (intro find_cong refl) (simp add: fill)
  then have "map_option ?fill (find (\<lambda>b. dict_get b ''codeiso2'' [] = cell r ''codeiso2'') ?coded)
      = Some r"
    using r unfolding find_map_option by simp
  then obtain b where
    b: "find (\<lambda>b. dict_get b ''codeiso2'' [] = cell r ''codeiso2'') ?coded = Some b"
    and rb: "r = ?fill b"
    by auto
  from b have bin: "b \<in> set ?bs" and bne: "dict_get b ''codeiso2'' [] \<noteq> []"
    and bc: "dict_get b ''codeiso2'' [] = cell r ''codeiso2''"
    by (auto dest: find_Some_mem)
  have "find (\<lambda>b. dict_get b ''codeiso2'' [] = cell r ''codeiso2'') ?bs = Some b"
  proof -
    have "find (\<lambda>b. dict_get b ''codeiso2'' [] = cell r ''codeiso2'') ?coded
        = find (\<lambda>b. dict_get b ''codeiso2'' [] = cell r ''codeiso2'') ?bs"
      using bc bne by (intro find_filter_weaker) simp
    with b show ?thesis by simp
  qed
  moreover have "cell x k = dict_get b k []" for k
    unfolding xr rb using fill[OF bin] by simp
  moreover have "cell x ''codeiso2'' = cell r ''codeiso2''" unfolding xr by simp
  ultimately show ?thesis using bne bc by auto
qed

lemma assign_col:
  "k \<noteq> c \<Longrightarrow> map (\<lambda>r. cell r c) (rws (assign k f df)) = map (\<lambda>r. cell r c) (rws df)"
  by (simp add: assign_def o_def cell_update)

lemma map_column_col:
  "map_column dst src f df = Inr df' \<Longrightarrow> dst \<noteq> c \<Longrightarrow>
     map (\<lambda>r. cell r c) (rws df') = map (\<lambda>r. cell r c) (rws df)"
  by (auto simp: map_column_def assign_col split: if_splits)

lemma apply_column_col:
  assumes "apply_column k f df = Inr df'" "k \<noteq> c"
  shows "map (\<lambda>r. cell r c) (rws df') = map (\<lambda>r. cell r c) (rws df)"
proof -
  from assms(1) obtain rs where
    rs: "map_result (\<lambda>r. and_then (f (cell r k)) (\<lambda>v. Inr (AList.update k v r))) (rws df) = Inr rs"
    and df': "rws df' = rs"
    by (auto simp: apply_column_def and_then_Inr split: if_splits)
  from map_result_Inr[OF rs]
  have "list_all2 (\<lambda>r r'. cell r' c = cell r c) (rws df) rs"
    by (rule list_all2_mono) (auto simp: and_then_Inr cell_update assms(2)[symmetric])
  then have "map (\<lambda>r. cell r c) rs = map (\<lambda>r. cell r c) (rws df)"
    by (induction rule: list_all2_induct) simp_all
  with df' show ?thesis by simp
qed

lemma format_area_column_col:
  "format_area_column df = Inr df' \<Longrightarrow> ''area_km2'' \<noteq> c \<Longrightarrow>
     map (\<lambda>r. cell r c) (rws df') = map (\<lambda>r. cell r c) (rws df)"
  by (auto simp: format_area_column_def and_then_Inr split: if_splits dest: apply_column_col)

lemma foldl_assign_col:
  "c \<notin> fst ` set dicts \<Longrightarrow>
     map (\<lambda>r. cell r c)
       (rws (foldl (\<lambda>df (key, dictval). assign key (\<lambda>r. dict_get dictval (cell r ''codeiso2'') []) df)
               df dicts))
     = map (\<lambda>r. cell r c) (rws df)"
proof (induction dicts arbitrary: df)
  case Nil
  then show ?case by simp
next
  case (Cons d dicts)
  obtain key dictval where d: "d = (key, dictval)" by (cases d)
  with Cons.prems have "key \<noteq> c" "c \<notin> fst ` set dicts" by auto
  with Cons.IH[of "assign key (\<lambda>r. dict_get dictval (cell r ''codeiso2'') []) df"] d
  show ?case by (simp add: assign_col)
qed

lemma gather_col:
  "gather dicts df = Inr df' \<Longrightarrow> c \<notin> fst ` set dicts \<Longrightarrow>
     map (\<lambda>r. cell r c) (rws df') = map (\<lambda>r. cell r c) (rws df)"
  by (auto simp: gather_def foldl_assign_col split: if_splits)

lemma clean_for_rendering_col:
  assumes "clean_for_rendering w df = Inr df'"
    and "c \<notin> {''name'', ''area_km2'', ''population'', ''gdp_bd'', ''flag_image'', ''wikipedia'',
              ''wikidata_id''}"
  shows "map (\<lambda>r. cell r c) (rws df') = map (\<lambda>r. cell r c) (rws df)"
proof -
  from assms(1) obtain d1 d2 d3 d4 d5 d6 where
    s: "map_column ''name'' ''countryLabel'' (\<lambda>v. v) df = Inr d1"
       "format_area_column d1 = Inr d2"
       "apply_column ''population'' format_population d2 = Inr d3"
       "apply_column ''gdp_bd'' (format_gdp (billions w)) d3 = Inr d4"
       "map_column ''flag_image'' ''flag_image'' (clean_image (unquote w)) d4 = Inr d5"
       "map_column ''wikipedia'' ''wikipedia''
          (\<lambda>v. unquote w (str_replace ''https://en.wikipedia.org/wiki/'' [] v)) d5 = Inr d6"
       "map_column ''wikidata_id'' ''country''
          (str_replace ''http://www.wikidata.org/entity/'' []) d6 = Inr df'"
    by (auto simp: clean_for_rendering_def and_then_Inr)
  from assms(2) have ne: "''name'' \<noteq> c" "''area_km2'' \<noteq> c" "''population'' \<noteq> c" "''gdp_bd'' \<noteq> c"
    "''flag_image'' \<noteq> c" "''wikipedia'' \<noteq> c" "''wikidata_id'' \<noteq> c" by auto
  show ?thesis
    using map_column_col[OF s(1) ne(1)] format_area_column_col[OF s(2) ne(2)]
      apply_column_col[OF s(3) ne(3)] apply_column_col[OF s(4) ne(4)]
      map_column_col[OF s(5) ne(5)] map_column_col[OF s(6) ne(6)] map_column_col[OF s(7) ne(7)]
    by simp
qed

lemma main_Inr:
  assumes "main w = Inr out"
  shows "\<exists>result base dfl dfl' cl cd.
           fetch_wikidata w (BasicQuery basic_properties) = Inr result \<and>
           base_pass result = Inr base \<and>
           request_list_properties w list_properties = Inr dfl \<and>
           clear_list_properties w dfl = Inr dfl' \<and>
           conversion_list list_properties dfl' = Inr cl \<and>
           request_date_properties w date_properties = Inr cd \<and>
           gather (dict_merge cl cd) base = Inr (brut out) \<and>
           clean_for_rendering w (brut out) = Inr (formated out) \<and>
           process_lua_data (sort_impl w) (today w) (formated out) selected_property
             = Inr (wikistring out)"
  using assms by (auto simp: main_def and_then_Inr)

lemma fold_result_keys:
  assumes step: "\<And>p acc acc'. f p acc = Inr acc' \<Longrightarrow> fst ` set acc' = insert (pname p) (fst ` set acc)"
    and res: "fold_result f ps acc = Inr res"
  shows "fst ` set res = fst ` set acc \<union> pname ` set ps"
  using res
proof (induction ps arbitrary: acc)
  case Nil
  then show ?case by simp
next
  case (Cons p ps)
  from Cons.prems obtain acc' where a: "f p acc = Inr acc'" "fold_result f ps acc' = Inr res"
    by (auto simp: and_then_Inr)
  from Cons.IH[OF a(2)] step[OF a(1)] show ?case by auto
qed

lemma update_keys: "fst ` set (AList.update k v al) = insert k (fst ` set al)"
  by (simp add: dom_update)

lemma conversion_list_keys:
  "conversion_list ps dfl = Inr cl \<Longrightarrow> fst ` set cl = pname ` set ps"
  unfolding conversion_list_def
  by (drule fold_result_keys[rotated]) (clarsimp simp: and_then_Inr update_keys, simp)

lemma request_date_properties_keys:
  "request_date_properties w ps = Inr cd \<Longrightarrow> fst ` set cd = pname ` set ps"
  unfolding request_date_properties_def
  by (drule fold_result_keys[rotated]) (clarsimp simp: and_then_Inr update_keys, simp)

lemma dict_merge_keys: "fst ` set (dict_merge a b) = fst ` set a \<union> fst ` set b"
  unfolding dict_merge_def
  by (induction b arbitrary: a) (auto simp: update_keys split_beta)

lemmas main_eval =
  main_def example_world_def example_answers_def france_def uncoded_def kosovo_def uri_def
  literal_def props_eval base_pass_def request_list_properties_def
  clear_list_properties_def conversion_list_def request_date_properties_def gather_def
  dict_merge_def clean_for_rendering_def map_column_def apply_column_def format_area_column_def
  format_gdp_def process_lua_data_def update_item_def
  dict_item_def clean_continent_def restructure_dated_property_def records_dict_def
  lua_eval list_eval frame_eval number_eval

lemma main_example:
  "main (example_world [france, uncoded]) =
     Inr \<lparr>brut =
            \<lparr>columns =
               [''codeiso2'', ''country'', ''countryLabel'', ''wikipedia'', ''area_km2'',
                ''flag_image'', ''osm_rel_id'', ''continent'', ''languages'', ''locator_map'',
                ''population'', ''gdp_bd''],
             rws =
               [[(''codeiso2'', ''FR''),
                 (''country'', ''http://www.wikidata.org/entity/Q142''),
                 (''countryLabel'', ''France''),
                 (''wikipedia'', ''https://en.wikipedia.org/wiki/France''),
                 (''area_km2'', ''643801''),
                 (''flag_image'',
                  ''http://commons.wikimedia.org/wiki/Special:FilePath/Flag of France.svg''),
                 (''osm_rel_id'', ''1403916''), (''continent'', ''Europe''),
                 (''languages'', ''French''), (''locator_map'', ''EU-France.svg''),
                 (''population'', ''68000000''), (''gdp_bd'', ''2780000000000'')]]\<rparr>,
          formated =
            \<lparr>columns =
               [''codeiso2'', ''country'', ''countryLabel'', ''wikipedia'', ''area_km2'',
                ''flag_image'', ''osm_rel_id'', ''continent'', ''languages'', ''locator_map'',
                ''population'', ''gdp_bd'', ''name'', ''wikidata_id''],
             rws =
               [[(''codeiso2'', ''FR''),
                 (''country'', ''http://www.wikidata.org/entity/Q142''),
                 (''countryLabel'', ''France''), (''wikipedia'', ''France''),
                 (''area_km2'', ''643,801''), (''flag_image'', ''Flag of France.svg''),
                 (''osm_rel_id'', ''1403916''), (''continent'', ''Europe''),
                 (''languages'', ''French''), (''locator_map'', ''EU-France.svg''),
                 (''population'', ''68,000,000''), (''gdp_bd'', ''2780.0''),
                 (''name'', ''France''), (''wikidata_id'', ''Q142'')]]\<rparr>,
          wikistring =
            render_lua ''2024-05-01''
              \<lparr>countrylist = [lua_quote ''FR''],
               subtables =
                 [(''continent'', [''FR = '' @ lua_quote ''Europe'']),
                  (''area_km2'', [''FR = '' @ lua_quote ''643,801'']),
                  (''population'', [''FR = '' @ lua_quote ''68,000,000'']),
                  (''gdp_bd'', [''FR = '' @ lua_quote ''2780.0'']),
                  (''languages'', [''FR = '' @ lua_quote ''French'']),
                  (''flag_image'', [''FR = '' @ lua_quote ''Flag of France.svg'']),
                  (''locator_map'', [''FR = '' @ lua_quote ''EU-France.svg'']),
                  (''osm_rel_id'', [''FR = '' @ lua_quote ''1403916'']),
                  (''name'', [''FR = '' @ lua_quote ''France'']),
                  (''wikipedia'', [''FR = '' @ lua_quote ''France'']),
                  (''wikidata_id'', [''FR = '' @ lua_quote ''Q142''])]\<rparr>\<rparr>"
  by (simp add: main_eval)

lemma map_eq_member:
  "map f xs = map f' ys \<Longrightarrow> map g xs = map g' ys \<Longrightarrow> x \<in> set xs \<Longrightarrow>
     \<exists>y\<in>set ys. f x = f' y \<and> g x = g' y"
proof (induction xs arbitrary: ys)
  case Nil
  then show ?case by simp
next
  case (Cons a xs)
  then obtain b ys' where ys: "ys = b # ys'" by (cases ys) auto
  with Cons show ?case by auto
qed

lemma main_tables:
  assumes main: "main w = Inr out" and c: "c \<in> {''codeiso2'', ''country''}"
  shows "\<exists>result base.
           fetch_wikidata w (BasicQuery basic_properties) = Inr result \<and>
           base_pass result = Inr base \<and>
           map (\<lambda>r. cell r c) (rws (brut out)) = map (\<lambda>r. cell r c) (rws base) \<and>
           map (\<lambda>r. cell r c) (rws (formated out)) = map (\<lambda>r. cell r c) (rws base)"
proof -
  from main_Inr[OF main] obtain result base dfl dfl' cl cd where
    s: "fetch_wikidata w (BasicQuery basic_properties) = Inr result"
       "base_pass result = Inr base"
       "conversion_list list_properties dfl' = Inr cl"
       "request_date_properties w date_properties = Inr cd"
       "gather (dict_merge cl cd) base = Inr (brut out)"
       "clean_for_rendering w (brut out) = Inr (formated out)"
    by blast
  have "fst ` set (dict_merge cl cd)
      = {''continent'', ''languages'', ''locator_map'', ''population'', ''gdp_bd''}"
    unfolding dict_merge_keys conversion_list_keys[OF s(3)] request_date_properties_keys[OF s(4)]
    by (auto simp: props_eval)
  with c have "c \<notin> fst ` set (dict_merge cl cd)" by auto
  from gather_col[OF s(5) this]
  have b: "map (\<lambda>r. cell r c) (rws (brut out)) = map (\<lambda>r. cell r c) (rws base)" .
  from c have "c \<notin> {''name'', ''area_km2'', ''population'', ''gdp_bd'', ''flag_image'',
                     ''wikipedia'', ''wikidata_id''}" by auto
  from clean_for_rendering_col[OF s(6) this] b
  have "map (\<lambda>r. cell r c) (rws (formated out)) = map (\<lambda>r. cell r c) (rws base)" by simp
  with s(1,2) b show ?thesis by blast
qed

lemma base_pass_nonempty_distinct:
  assumes "base_pass result = Inr base"
  shows "\<forall>r\<in>set (rws base). cell r ''codeiso2'' \<noteq> []"
    and "distinct (map (\<lambda>r. cell r ''codeiso2'') (rws base))"
    and "set (map (\<lambda>r. cell r ''codeiso2'') (rws base))
           = {c. c \<noteq> []} \<inter> (\<lambda>b. dict_get b ''codeiso2'' []) ` set (restructure_json result)"
proof -
  note codes = base_pass_codes[OF assms]
  show "distinct (map (\<lambda>r. cell r ''codeiso2'') (rws base))" unfolding codes by simp
  show s: "set (map (\<lambda>r. cell r ''codeiso2'') (rws base))
           = {c. c \<noteq> []} \<inter> (\<lambda>b. dict_get b ''codeiso2'' []) ` set (restructure_json result)"
    unfolding codes by auto
  show "\<forall>r\<in>set (rws base). cell r ''codeiso2'' \<noteq> []"
  proof
    fix r assume "r \<in> set (rws base)"
    then have "cell r ''codeiso2'' \<in> set (map (\<lambda>r. cell r ''codeiso2'') (rws base))" by simp
    then show "cell r ''codeiso2'' \<noteq> []" unfolding s by simp
  qed
qed

lemma distinct_unique_id: "distinct xs \<Longrightarrow> unique xs = xs"
  by (simp add: unique_def distinct_remdups_id)

lemma main_lua:
  assumes srt: "sort_values_spec (sort_impl w)" and main: "main w = Inr out"
  shows "\<exists>ld rows. wikistring out = render_lua (today w) ld \<and>
           lua_structure (sort_impl w) (formated out) selected_property = Inr ld \<and>
           mset rows = mset (rws (formated out)) \<and>
           sorted (map (\<lambda>r. cell r ''name'') rows) \<and>
           countrylist ld = map lua_quote (map (\<lambda>r. cell r ''codeiso2'') rows) \<and>
           subtables ld = map (\<lambda>item. (item, map (\<lambda>r. cell r ''codeiso2'' @ '' = '' @ lua_quote (cell r item)) rows))
                            (filter (\<lambda>item. item \<noteq> ''codeiso2'') selected_property)"
proof -
  from main_wikistring[OF main] obtain ld where
    ld: "lua_structure (sort_impl w) (formated out) selected_property = Inr ld"
      "wikistring out = render_lua (today w) ld" by blast
  from lua_structure_Inr[OF srt ld(1)] obtain rows where
    rows: "mset rows = mset (rws (formated out))" "sorted (map (\<lambda>r. cell r ''name'') rows)"
      "countrylist ld = map lua_quote (unique (map (\<lambda>r. cell r ''codeiso2'') rows))"
      "subtables ld = map (\<lambda>item. (item, map (\<lambda>r. cell r ''codeiso2'' @ '' = '' @ lua_quote (cell r item))
                  (filter (\<lambda>r. cell r ''codeiso2'' \<noteq> []) rows))) (filter (\<lambda>item. item \<noteq> ''codeiso2'') selected_property)"
    by blast
  from main_tables[OF main, of "''codeiso2''"] obtain result base where
    base: "base_pass result = Inr base"
      "map (\<lambda>r. cell r ''codeiso2'') (rws (formated out)) = map (\<lambda>r. cell r ''codeiso2'') (rws base)"
    by auto
  have "mset (map (\<lambda>r. cell r ''codeiso2'') rows) = mset (map (\<lambda>r. cell r ''codeiso2'') (rws base))"
    using rows(1) base(2) by (metis mset_map)
  then have d: "distinct (map (\<lambda>r. cell r ''codeiso2'') rows)"
    and s: "set (map (\<lambda>r. cell r ''codeiso2'') rows) = set (map (\<lambda>r. cell r ''codeiso2'') (rws base))"
    using base_pass_nonempty_distinct(2)[OF base(1)]
    by (metis mset_eq_imp_distinct_iff, metis set_mset_mset)
  have "\<forall>r\<in>set rows. cell r ''codeiso2'' \<noteq> []"
  proof
    fix r assume "r \<in> set rows"
    then have "cell r ''codeiso2'' \<in> set (map (\<lambda>r. cell r ''codeiso2'') rows)" by simp
    then obtain r' where "r' \<in> set (rws base)" "cell r' ''codeiso2'' = cell r ''codeiso2''"
      unfolding s by auto
    with base_pass_nonempty_distinct(1)[OF base(1)] show "cell r ''codeiso2'' \<noteq> []" by metis
  qed
  then have f: "filter (\<lambda>r. cell r ''codeiso2'' \<noteq> []) rows = rows" by (simp add: filter_id_conv)
  show ?thesis
    using ld rows(1,2) rows(3)[unfolded distinct_unique_id[OF d]] rows(4)[unfolded f] by blast
qed

text \<open>
  Claim C1. Every row of the base table has a non-empty country code, no two rows share a
  code, and every row is the first binding of its code with all its values. The run adds
  and rewrites columns other than the code and the entity, so the raw table and the
  formatted table have the rows of the base table, and the Lua structure has an entry for
  exactly those rows: a row of an exported table always carries the code and the entity
  of a binding whose code is not empty.
\<close>

theorem coded_entities_only:
  "(\<forall>result base. base_pass result = Inr base \<longrightarrow>
       (\<forall>r\<in>set (rws base). cell r ''codeiso2'' \<noteq> []) \<and>
       distinct (map (\<lambda>r. cell r ''codeiso2'') (rws base)) \<and>
       set (map (\<lambda>r. cell r ''codeiso2'') (rws base))
         = {c. c \<noteq> []} \<inter> (\<lambda>b. dict_get b ''codeiso2'' []) ` set (restructure_json result) \<and>
       (\<forall>r\<in>set (rws base).
          \<exists>b. find (\<lambda>b. dict_get b ''codeiso2'' [] = cell r ''codeiso2'') (restructure_json result)
                 = Some b \<and>
              (\<forall>k. cell r k = dict_get b k [])))
   \<and> (\<forall>w out. main w = Inr out \<longrightarrow>
        (\<exists>result base.
           fetch_wikidata w (BasicQuery basic_properties) = Inr result \<and>
           base_pass result = Inr base \<and>
           map (\<lambda>r. cell r ''codeiso2'') (rws (brut out)) = map (\<lambda>r. cell r ''codeiso2'') (rws base) \<and>
           map (\<lambda>r. cell r ''codeiso2'') (rws (formated out)) = map (\<lambda>r. cell r ''codeiso2'') (rws base) \<and>
           (\<forall>r\<in>set (rws (brut out)) \<union> set (rws (formated out)).
              cell r ''codeiso2'' \<noteq> [] \<and>
              (\<exists>b\<in>set (restructure_json result).
                 dict_get b ''codeiso2'' [] = cell r ''codeiso2'' \<and>
                 dict_get b ''country'' [] = cell r ''country''))))
   \<and> (\<forall>w out. sort_values_spec (sort_impl w) \<longrightarrow> main w = Inr out \<longrightarrow>
        (\<exists>ld rows.
           wikistring out = render_lua (today w) ld \<and>
           mset rows = mset (rws (formated out)) \<and>
           countrylist ld = map lua_quote (map (\<lambda>r. cell r ''codeiso2'') rows) \<and>
           (\<forall>t\<in>set (subtables ld).
              snd t = map (\<lambda>r. cell r ''codeiso2'' @ '' = '' @ lua_quote (cell r (fst t))) rows)))"
proof (intro conjI allI impI)
  fix result base assume base: "base_pass result = Inr base"
  show "\<forall>r\<in>set (rws base). cell r ''codeiso2'' \<noteq> []"
    by (rule base_pass_nonempty_distinct(1)[OF base])
  show "distinct (map (\<lambda>r. cell r ''codeiso2'') (rws base))"
    by (rule base_pass_nonempty_distinct(2)[OF base])
  show "set (map (\<lambda>r. cell r ''codeiso2'') (rws base))
         = {c. c \<noteq> []} \<inter> (\<lambda>b. dict_get b ''codeiso2'' []) ` set (restructure_json result)"
    by (rule base_pass_nonempty_distinct(3)[OF base])
  show "\<forall>r\<in>set (rws base).
          \<exists>b. find (\<lambda>b. dict_get b ''codeiso2'' [] = cell r ''codeiso2'') (restructure_json result)
                 = Some b \<and>
              (\<forall>k. cell r k = dict_get b k [])"
    using base_pass_rows[OF base] by blast
next
  fix w out assume main: "main w = Inr out"
  from main_tables[OF main, of "''codeiso2''"] obtain result base where
    rb: "fetch_wikidata w (BasicQuery basic_properties) = Inr result"
        "base_pass result = Inr base"
    and code: "map (\<lambda>r. cell r ''codeiso2'') (rws (brut out)) = map (\<lambda>r. cell r ''codeiso2'') (rws base)"
        "map (\<lambda>r. cell r ''codeiso2'') (rws (formated out)) = map (\<lambda>r. cell r ''codeiso2'') (rws base)"
    by auto
  from main_tables[OF main, of "''country''"] rb
  have country: "map (\<lambda>r. cell r ''country'') (rws (brut out)) = map (\<lambda>r. cell r ''country'') (rws base)"
      "map (\<lambda>r. cell r ''country'') (rws (formated out)) = map (\<lambda>r. cell r ''country'') (rws base)"
    by auto
  have row: "cell r ''codeiso2'' \<noteq> [] \<and>
              (\<exists>b\<in>set (restructure_json result).
                 dict_get b ''codeiso2'' [] = cell r ''codeiso2'' \<and>
                 dict_get b ''country'' [] = cell r ''country'')"
    if eqs: "map (\<lambda>r. cell r ''codeiso2'') rs = map (\<lambda>r. cell r ''codeiso2'') (rws base)"
         "map (\<lambda>r. cell r ''country'') rs = map (\<lambda>r. cell r ''country'') (rws base)"
      and r: "r \<in> set rs" for r rs
  proof -
    from map_eq_member[OF eqs r] obtain x where
      x: "x \<in> set (rws base)" "cell r ''codeiso2'' = cell x ''codeiso2''"
        "cell r ''country'' = cell x ''country''" by blast
    from base_pass_rows[OF rb(2) x(1)] obtain b where
      b: "find (\<lambda>b. dict_get b ''codeiso2'' [] = cell x ''codeiso2'') (restructure_json result) = Some b"
        "cell x ''codeiso2'' \<noteq> []" "\<And>k. cell x k = dict_get b k []"
      by blast
    from b(1) have "b \<in> set (restructure_json result)" by (auto dest: find_Some_mem)
    with x b(2) b(3)[of "''codeiso2''"] b(3)[of "''country''"] show ?thesis
      by (intro conjI bexI[of _ b]) simp_all
  qed
  have "\<forall>r\<in>set (rws (brut out)) \<union> set (rws (formated out)).
              cell r ''codeiso2'' \<noteq> [] \<and>
              (\<exists>b\<in>set (restructure_json result).
                 dict_get b ''codeiso2'' [] = cell r ''codeiso2'' \<and>
                 dict_get b ''country'' [] = cell r ''country'')"
    using row[OF code(1) country(1)] row[OF code(2) country(2)] by blast
  with rb code
  show "\<exists>result base.
           fetch_wikidata w (BasicQuery basic_properties) = Inr result \<and>
           base_pass result = Inr base \<and>
           map (\<lambda>r. cell r ''codeiso2'') (rws (brut out)) = map (\<lambda>r. cell r ''codeiso2'') (rws base) \<and>
           map (\<lambda>r. cell r ''codeiso2'') (rws (formated out)) = map (\<lambda>r. cell r ''codeiso2'') (rws base) \<and>
           (\<forall>r\<in>set (rws (brut out)) \<union> set (rws (formated out)).
              cell r ''codeiso2'' \<noteq> [] \<and>
              (\<exists>b\<in>set (restructure_json result).
                 dict_get b ''codeiso2'' [] = cell r ''codeiso2'' \<and>
                 dict_get b ''country'' [] = cell r ''country''))"
    by blast
next
  fix w out assume "sort_values_spec (sort_impl w)" "main w = Inr out"
  from main_lua[OF this] obtain ld rows where
    l: "wikistring out = render_lua (today w) ld"
       "mset rows = mset (rws (formated out))"
       "countrylist ld = map lua_quote (map (\<lambda>r. cell r ''codeiso2'') rows)"
       "subtables ld = map (\<lambda>item. (item, map (\<lambda>r. cell r ''codeiso2'' @ '' = '' @ lua_quote (cell r item)) rows))
                            (filter (\<lambda>item. item \<noteq> ''codeiso2'') selected_property)"
    by blast
  from l(4) have "\<forall>t\<in>set (subtables ld).
              snd t = map (\<lambda>r. cell r ''codeiso2'' @ '' = '' @ lua_quote (cell r (fst t))) rows"
    by auto
  with l(1,2,3)
  show "\<exists>ld rows.
           wikistring out = render_lua (today w) ld \<and>
           mset rows = mset (rws (formated out)) \<and>
           countrylist ld = map lua_quote (map (\<lambda>r. cell r ''codeiso2'') rows) \<and>
           (\<forall>t\<in>set (subtables ld).
              snd t = map (\<lambda>r. cell r ''codeiso2'' @ '' = '' @ lua_quote (cell r (fst t))) rows)"
    by blast
qed

lemma base_example:
  "base_pass [france, uncoded] =
     Inr \<lparr>columns =
            [''codeiso2'', ''country'', ''countryLabel'', ''wikipedia'', ''area_km2'',
             ''flag_image'', ''osm_rel_id''],
          rws =
            [[(''codeiso2'', ''FR''),
              (''country'', ''http://www.wikidata.org/entity/Q142''),
              (''countryLabel'', ''France''),
              (''wikipedia'', ''https://en.wikipedia.org/wiki/France''),
              (''area_km2'', ''643801''),
              (''flag_image'',
               ''http://commons.wikimedia.org/wiki/Special:FilePath/Flag of France.svg''),
              (''osm_rel_id'', ''1403916'')]]\<rparr>"
  by (simp add: main_eval)

lemma single_coded:
  assumes "length (filter (\<lambda>b. dict_get b ''codeiso2'' [] \<noteq> []) bs) = 1"
  shows "length (sort (remdups (filter (\<lambda>c. c \<noteq> []) (map (\<lambda>b. dict_get b ''codeiso2'' []) bs)))) = 1"
proof -
  from assms obtain b where "filter (\<lambda>b. dict_get b ''codeiso2'' [] \<noteq> []) bs = [b]"
    by (cases "filter (\<lambda>b. dict_get b ''codeiso2'' [] \<noteq> []) bs") auto
  then have "filter (\<lambda>c. c \<noteq> []) (map (\<lambda>b. dict_get b ''codeiso2'' []) bs)
      = [dict_get b ''codeiso2'' []]"
    by (simp add: filter_map o_def)
  then show ?thesis by simp
qed

text \<open>
  Claim C6. When exactly one entity of the answer to the base query has a non-empty
  country code, as in a dataset of two entities of which one has no code, a run that
  completes renders a structure whose \<open>countrylist\<close> holds exactly one code and whose
  sub-tables hold exactly one entry each; the two exported tables have one row.
\<close>

theorem one_coded_entity:
  assumes srt: "sort_values_spec (sort_impl w)"
    and fetch: "fetch_wikidata w (BasicQuery basic_properties) = Inr result"
    and one: "length (filter (\<lambda>b. dict_get b ''codeiso2'' [] \<noteq> []) (restructure_json result)) = 1"
    and main: "main w = Inr out"
  shows "\<exists>ld. wikistring out = render_lua (today w) ld \<and>
              lua_structure (sort_impl w) (formated out) selected_property = Inr ld \<and>
              length (countrylist ld) = 1 \<and>
              (\<forall>t\<in>set (subtables ld). length (snd t) = 1) \<and>
              map fst (subtables ld) = filter (\<lambda>item. item \<noteq> ''codeiso2'') selected_property \<and>
              length (rws (brut out)) = 1 \<and> length (rws (formated out)) = 1"
proof -
  from main_tables[OF main, of "''codeiso2''"] fetch obtain base where
    base: "base_pass result = Inr base"
    and code: "map (\<lambda>r. cell r ''codeiso2'') (rws (brut out)) = map (\<lambda>r. cell r ''codeiso2'') (rws base)"
        "map (\<lambda>r. cell r ''codeiso2'') (rws (formated out)) = map (\<lambda>r. cell r ''codeiso2'') (rws base)"
    by auto
  have "length (map (\<lambda>r. cell r ''codeiso2'') (rws base)) = 1"
    unfolding base_pass_codes[OF base] using one by (rule single_coded)
  then have len: "length (rws (brut out)) = 1" "length (rws (formated out)) = 1"
    using code by (metis length_map)+
  from main_lua[OF srt main] obtain ld rows where
    l: "wikistring out = render_lua (today w) ld"
       "lua_structure (sort_impl w) (formated out) selected_property = Inr ld"
       "mset rows = mset (rws (formated out))"
       "countrylist ld = map lua_quote (map (\<lambda>r. cell r ''codeiso2'') rows)"
       "subtables ld = map (\<lambda>item. (item, map (\<lambda>r. cell r ''codeiso2'' @ '' = '' @ lua_quote (cell r item)) rows))
                            (filter (\<lambda>item. item \<noteq> ''codeiso2'') selected_property)"
    by blast
  from l(3) len(2) have lr: "length rows = 1" by (metis size_mset)
  from l(4) lr have "length (countrylist ld) = 1" by simp
  moreover from l(5) lr have "\<forall>t\<in>set (subtables ld). length (snd t) = 1" by auto
  moreover from l(5) have "map fst (subtables ld) = filter (\<lambda>item. item \<noteq> ''codeiso2'') selected_property"
    by (simp add: o_def)
  ultimately show ?thesis using l(1,2) len by blast
qed

theorem one_coded_entity_witness:
  "sort_values_spec (sort_impl (example_world [france, uncoded]))
   \<and> fetch_wikidata (example_world [france, uncoded]) (BasicQuery basic_properties)
       = Inr [france, uncoded]
   \<and> length [france, uncoded] = 2
   \<and> length (filter (\<lambda>b. dict_get b ''codeiso2'' [] \<noteq> []) (restructure_json [france, uncoded])) = 1
   \<and> (\<exists>out ld. main (example_world [france, uncoded]) = Inr out \<and>
         wikistring out = render_lua ''2024-05-01'' ld \<and>
         length (countrylist ld) = 1 \<and>
         (\<forall>t\<in>set (subtables ld). length (snd t) = 1) \<and>
         length (rws (brut out)) = 1 \<and> length (rws (formated out)) = 1)"
proof -
  let ?w = "example_world [france, uncoded]"
  have srt: "sort_values_spec (sort_impl ?w)" by (simp add: example_world_def stable_sort_spec)
  have fetch: "fetch_wikidata ?w (BasicQuery basic_properties) = Inr [france, uncoded]"
    by (simp add: example_world_def example_answers_def)
  have one: "length (filter (\<lambda>b. dict_get b ''codeiso2'' [] \<noteq> []) (restructure_json [france, uncoded])) = 1"
    by (simp add: restructure_json_def france_def uncoded_def uri_def literal_def dict_get_def)
  have today: "today ?w = ''2024-05-01''" by (simp add: example_world_def)
  obtain out where out: "main ?w = Inr out" using main_example by blast
  from one_coded_entity[OF srt fetch one out] obtain ld where
    "wikistring out = render_lua (today ?w) ld" "length (countrylist ld) = 1"
    "\<forall>t\<in>set (subtables ld). length (snd t) = 1"
    "length (rws (brut out)) = 1" "length (rws (formated out)) = 1"
    by blast
  with out today have "\<exists>out ld. main ?w = Inr out \<and>
         wikistring out = render_lua ''2024-05-01'' ld \<and>
         length (countrylist ld) = 1 \<and>
         (\<forall>t\<in>set (subtables ld). length (snd t) = 1) \<and>
         length (rws (brut out)) = 1 \<and> length (rws (formated out)) = 1"
    by metis
  with srt fetch one show ?thesis by simp
qed

lemma restructure_json_no_value:
  "(key, val) \<in> set item \<Longrightarrow> ''value'' \<notin> fst ` set val \<Longrightarrow>
     (key, []) \<in> set (hd (restructure_json [item]))"
proof -
  assume m: "(key, val) \<in> set item" and v: "''value'' \<notin> fst ` set val"
  from v have "dict_get val ''value'' [] = []" by (rule dict_get_absent)
  then have "(key, []) = (\<lambda>(key, val). (key, dict_get val ''value'' [])) (key, val)" by simp
  with m have "(key, []) \<in> (\<lambda>(key, val). (key, dict_get val ''value'' [])) ` set item"
    by (rule image_eqI[rotated])
  then show ?thesis by (simp add: restructure_json_def)
qed

lemma DataFrame_cell:
  assumes "i < length bs"
  shows "cell (rws (DataFrame bs) ! i) k = dict_get (bs ! i) k []"
  using assms by (simp add: rws_DataFrame cell_fill)

lemma foldl_assign_length:
  "length (rws (foldl (\<lambda>df (key, dictval). assign key (\<lambda>r. dict_get dictval (cell r ''codeiso2'') []) df)
               df dicts)) = length (rws df)"
  by (induction dicts arbitrary: df) (auto simp: assign_def)

lemma foldl_assign_cell:
  assumes "distinct (map fst dicts)" "''codeiso2'' \<notin> fst ` set dicts"
    "(key, dictval) \<in> set dicts" "i < length (rws df)"
  shows "cell (rws (foldl (\<lambda>df (key, dictval). assign key (\<lambda>r. dict_get dictval (cell r ''codeiso2'') []) df)
               df dicts) ! i) key
         = dict_get dictval (cell (rws df ! i) ''codeiso2'') []"
  using assms
proof (induction dicts arbitrary: df)
  case Nil
  then show ?case by simp
next
  case (Cons d dicts)
  obtain k0 d0 where d: "d = (k0, d0)" by (cases d)
  let ?df1 = "assign k0 (\<lambda>r. dict_get d0 (cell r ''codeiso2'') []) df"
  let ?F = "\<lambda>df (key, dictval). assign key (\<lambda>r. dict_get dictval (cell r ''codeiso2'') []) df"
  from Cons.prems d have k0: "k0 \<noteq> ''codeiso2''" "k0 \<notin> fst ` set dicts"
    and rest: "distinct (map fst dicts)" "''codeiso2'' \<notin> fst ` set dicts" by auto
  have len1: "i < length (rws ?df1)" using Cons.prems(4) by (simp add: assign_def)
  show ?case
  proof (cases "(key, dictval) = (k0, d0)")
    case True
    then have key: "key = k0" "dictval = d0" by auto
    have "map (\<lambda>r. cell r k0) (rws (foldl ?F ?df1 dicts)) = map (\<lambda>r. cell r k0) (rws ?df1)"
      using k0(2) by (rule foldl_assign_col)
    then have "map (\<lambda>r. cell r k0) (rws (foldl ?F ?df1 dicts)) ! i = map (\<lambda>r. cell r k0) (rws ?df1) ! i"
      by simp
    then have "cell (rws (foldl ?F ?df1 dicts) ! i) k0 = cell (rws ?df1 ! i) k0"
      using len1 by (simp add: foldl_assign_length)
    also have "\<dots> = dict_get d0 (cell (rws df ! i) ''codeiso2'') []"
      using Cons.prems(4) by (simp add: assign_def cell_update)
    finally show ?thesis using d key by simp
  next
    case False
    with Cons.prems(3) d have mem: "(key, dictval) \<in> set dicts" by auto
    have "cell (rws (foldl ?F ?df1 dicts) ! i) key = dict_get dictval (cell (rws ?df1 ! i) ''codeiso2'') []"
      using rest mem len1 by (rule Cons.IH)
    also have "cell (rws ?df1 ! i) ''codeiso2'' = cell (rws df ! i) ''codeiso2''"
      using Cons.prems(4) k0(1) by (simp add: assign_def cell_update)
    finally show ?thesis using d by simp
  qed
qed

lemma gather_cell:
  assumes "gather dicts df = Inr df'" "distinct (map fst dicts)" "''codeiso2'' \<notin> fst ` set dicts"
    "(key, dictval) \<in> set dicts" "i < length (rws df)"
  shows "cell (rws df' ! i) key = dict_get dictval (cell (rws df ! i) ''codeiso2'') []"
    and "length (rws df') = length (rws df)"
  using assms foldl_assign_cell[OF assms(2-5)] foldl_assign_length[of df dicts]
  by (auto simp: gather_def split: if_splits)

lemma base_pass_no_code_column:
  "''codeiso2'' \<notin> (\<Union>item\<in>set result. fst ` set item) \<Longrightarrow>
     base_pass result = Inl (KeyError ''codeiso2'')"
proof -
  assume a: "''codeiso2'' \<notin> (\<Union>item\<in>set result. fst ` set item)"
  have "(\<Union>b\<in>set (restructure_json result). fst ` set b) = (\<Union>item\<in>set result. fst ` set item)"
    by (force simp: restructure_json_def)
  with a have "''codeiso2'' \<notin> set (columns (DataFrame (restructure_json result)))"
    unfolding columns_DataFrame by simp
  then show ?thesis by (simp add: base_pass_def drop_empty_code_def)
qed

end
